theory Spec2Isabelle
  imports Complex_Main "HOL-Library.Sublist"
begin

section \<open>Time\<close>

text \<open>
  A Python \<^verbatim>\<open>datetime\<close> is a count of microseconds: for a timezone-aware value the
  count since 1970-01-01T00:00:00 UTC (aware values compare and subtract by instant, and
  \<^verbatim>\<open>astimezone\<close> keeps the instant), for a naive value the count on its own wall
  clock. A \<^verbatim>\<open>timedelta\<close> is a count of microseconds as well. The range limit of
  \<^verbatim>\<open>datetime\<close> (year 9999) is not modelled.
\<close>

type_synonym datetime = int
type_synonym timedelta = int

definition days_from_civil :: "int \<Rightarrow> int \<Rightarrow> int \<Rightarrow> int" where
  "days_from_civil y m d =
     (let y' = (if m \<le> 2 then y - 1 else y);
          era = y' div 400;
          yoe = y' - era * 400;
          doy = (153 * (if 2 < m then m - 3 else m + 9) + 2) div 5 + d - 1;
          doe = yoe * 365 + yoe div 4 - yoe div 100 + doy
      in era * 146097 + doe - 719468)"

definition mk_datetime :: "int \<Rightarrow> int \<Rightarrow> int \<Rightarrow> int \<Rightarrow> int \<Rightarrow> int \<Rightarrow> datetime" where
  "mk_datetime y m d hh mm ss =
     (days_from_civil y m d * 86400 + hh * 3600 + mm * 60 + ss) * 1000000"

definition seconds :: "int \<Rightarrow> timedelta" where
  "seconds n = n * 1000000"

definition weeks :: "int \<Rightarrow> timedelta" where
  "weeks n = n * 7 * 86400 * 1000000"

text \<open>The module constants of \<^verbatim>\<open>fetch-latest.py\<close> (lines 17 to 21).\<close>

definition ONE_SEC :: timedelta where
  "ONE_SEC = seconds 1"

definition MIN_DT :: timedelta where
  "MIN_DT = ONE_SEC"

definition ONE_WEEK :: timedelta where
  "ONE_WEEK = weeks 1"

definition MAX_LOOKBACK_BATTERY :: timedelta where
  "MAX_LOOKBACK_BATTERY = ONE_WEEK"

definition MAX_LOOKBACK_POWERDETAILS :: timedelta where
  "MAX_LOOKBACK_POWERDETAILS = weeks 4"

section \<open>JSON values and the Python operations on them\<close>

text \<open>
  What \<^verbatim>\<open>json.loads\<close> returns: \<^verbatim>\<open>None\<close>, a bool, a number, a string, a list or a
  dict. A dict is an association list with distinct keys, in insertion order. Python's
  \<^verbatim>\<open>None\<close> and the JSON value \<^verbatim>\<open>null\<close> are the same value, \<open>JNull\<close>.
  \<open>JNum\<close> is an \<^verbatim>\<open>int\<close> or a finite \<^verbatim>\<open>float\<close>; the floats that
  \<^verbatim>\<open>json.loads\<close> returns for \<^verbatim>\<open>NaN\<close>, for \<^verbatim>\<open>Infinity\<close> and for
  \<^verbatim>\<open>-Infinity\<close> (and for a float literal beyond the float range) are \<open>JNaN\<close>,
  \<open>JInfinity\<close> and \<open>JNegInfinity\<close>.
\<close>

datatype json =
    JNull
  | JBool bool
  | JNum real
  | JNaN
  | JInfinity
  | JNegInfinity
  | JStr string
  | JArr "json list"
  | JObj "(string \<times> json) list"

datatype exn =
    HTTPError int string
  | URLError string
  | JSONDecodeError string
  | AttributeError string
  | KeyError string
  | TypeError
  | ValueError
  | OverflowError

text \<open>\<^verbatim>\<open>k in j\<close> for a string \<open>k\<close>: a key test on a dict, a membership test on a list, a
  substring test on a string; any other value is not iterable.\<close>

fun py_contains :: "string \<Rightarrow> json \<Rightarrow> exn + bool" where
  "py_contains k (JObj kvs) = Inr (k \<in> set (map fst kvs))"
| "py_contains k (JArr xs) = Inr (JStr k \<in> set xs)"
| "py_contains k (JStr s) = Inr (sublist k s)"
| "py_contains k JNull = Inl TypeError"
| "py_contains k (JBool b) = Inl TypeError"
| "py_contains k (JNum n) = Inl TypeError"
| "py_contains k JNaN = Inl TypeError"
| "py_contains k JInfinity = Inl TypeError"
| "py_contains k JNegInfinity = Inl TypeError"

text \<open>\<^verbatim>\<open>j[k]\<close> for a string \<open>k\<close>: a lookup in a dict (\<^verbatim>\<open>KeyError\<close> when the key is
  absent); every other value refuses a string subscript with \<^verbatim>\<open>TypeError\<close>.\<close>

fun py_getitem :: "json \<Rightarrow> string \<Rightarrow> exn + json" where
  "py_getitem (JObj kvs) k =
     (case map_of kvs k of None \<Rightarrow> Inl (KeyError k) | Some v \<Rightarrow> Inr v)"
| "py_getitem JNull k = Inl TypeError"
| "py_getitem (JBool b) k = Inl TypeError"
| "py_getitem (JNum n) k = Inl TypeError"
| "py_getitem JNaN k = Inl TypeError"
| "py_getitem JInfinity k = Inl TypeError"
| "py_getitem JNegInfinity k = Inl TypeError"
| "py_getitem (JStr s) k = Inl TypeError"
| "py_getitem (JArr xs) k = Inl TypeError"

text \<open>\<^verbatim>\<open>for x in j\<close>: the elements of a list, the keys of a dict, the characters of a
  string; any other value is not iterable.\<close>

fun py_iter :: "json \<Rightarrow> exn + json list" where
  "py_iter (JArr xs) = Inr xs"
| "py_iter (JObj kvs) = Inr (map (\<lambda>kv. JStr (fst kv)) kvs)"
| "py_iter (JStr s) = Inr (map (\<lambda>c. JStr [c]) s)"
| "py_iter JNull = Inl TypeError"
| "py_iter (JBool b) = Inl TypeError"
| "py_iter (JNum n) = Inl TypeError"
| "py_iter JNaN = Inl TypeError"
| "py_iter JInfinity = Inl TypeError"
| "py_iter JNegInfinity = Inl TypeError"

text \<open>\<^verbatim>\<open>format(v, ".0f")\<close>, which converts \<open>v\<close> to a float: a bool and a float
  (also a non-finite one) are accepted; an \<^verbatim>\<open>int\<close> is accepted unless it rounds to
  \<open>2 ^ 1024\<close> or beyond, where the conversion raises \<^verbatim>\<open>OverflowError\<close> (a finite
  number of that size is an \<^verbatim>\<open>int\<close>, no float being that large); a string raises
  \<^verbatim>\<open>ValueError\<close>; \<^verbatim>\<open>None\<close>, a list and a dict raise \<^verbatim>\<open>TypeError\<close>.\<close>

fun py_format_f :: "json \<Rightarrow> exn + json" where
  "py_format_f (JNum n) =
     (if 2 ^ 1024 - 2 ^ 970 \<le> \<bar>n\<bar> then Inl OverflowError else Inr (JNum n))"
| "py_format_f JNaN = Inr JNaN"
| "py_format_f JInfinity = Inr JInfinity"
| "py_format_f JNegInfinity = Inr JNegInfinity"
| "py_format_f (JBool b) = Inr (JBool b)"
| "py_format_f (JStr s) = Inl ValueError"
| "py_format_f JNull = Inl TypeError"
| "py_format_f (JArr xs) = Inl TypeError"
| "py_format_f (JObj kvs) = Inl TypeError"

text \<open>\<^verbatim>\<open>round(v)\<close>: an \<^verbatim>\<open>int\<close>, a finite float and a bool are accepted;
  \<^verbatim>\<open>NaN\<close> raises \<^verbatim>\<open>ValueError\<close> and an infinite float \<^verbatim>\<open>OverflowError\<close>;
  a string, \<^verbatim>\<open>None\<close>, a list and a dict raise \<^verbatim>\<open>TypeError\<close>.\<close>

fun py_round :: "json \<Rightarrow> exn + json" where
  "py_round (JNum n) = Inr (JNum n)"
| "py_round JNaN = Inl ValueError"
| "py_round JInfinity = Inl OverflowError"
| "py_round JNegInfinity = Inl OverflowError"
| "py_round (JBool b) = Inr (JBool b)"
| "py_round (JStr s) = Inl TypeError"
| "py_round JNull = Inl TypeError"
| "py_round (JArr xs) = Inl TypeError"
| "py_round (JObj kvs) = Inl TypeError"

section \<open>The outside world\<close>

text \<open>
  A request URL of the provider API. The site id and the API key are fixed by the
  configuration; what varies is the endpoint and the two datetimes that the client
  formats into the query string.
\<close>

datatype url =
    StorageData datetime datetime
  | PowerDetails datetime datetime

text \<open>
  What \<^verbatim>\<open>urllib.request.urlopen(url)\<close> followed by \<^verbatim>\<open>json.loads(r.read())\<close> does:
  \<open>HTTPFailure code msg\<close> is a status for which \<^verbatim>\<open>urlopen\<close> raises
  \<^verbatim>\<open>HTTPError\<close>, \<open>Unreachable\<close> a transport failure below HTTP (\<^verbatim>\<open>URLError\<close>),
  \<open>BadBody msg\<close> a body on which \<^verbatim>\<open>json.loads\<close> raises \<^verbatim>\<open>JSONDecodeError\<close>,
  \<open>Body j\<close> a body that parses to \<open>j\<close>.
\<close>

datatype http_response =
    HTTPFailure int string
  | Unreachable string
  | BadBody string
  | Body json

datatype write_mode = ASYNCHRONOUS | SYNCHRONOUS

datatype flux = Last_production_consumption | Last_any

datatype tag_value =
    Tag json
  | Model_serial json json

record point =
  measurement :: json
  tags :: "(string \<times> tag_value) list"
  time :: datetime
  field_values :: "(string \<times> json) list"

text \<open>The lines printed: one constructor for each \<^verbatim>\<open>print\<close> of the source.\<close>

datatype diag =
    Query_line url
  | HTTP_error_line int string
  | Exn_line exn
  | No_type
  | No_values
  | No_modelNumber
  | No_serialNumber
  | No_timeStamp
  | No_batteryPercentageState
  | No_power
  | Power_line datetime json json json
  | Battery_line datetime json json
  | Bucket_line

record io =
  stdout :: "diag list"
  stderr :: "diag list"
  requests :: "url list"
  written :: "(write_mode \<times> point) list"

text \<open>
  What a run reads from outside: the answer of the provider to each request, the tables of
  record times that the sink returns for each of the two queries, the current time (one
  value for the whole cycle), the instant of a naive datetime read on the local clock
  (\<^verbatim>\<open>astimezone\<close> on a naive value), the library's \<^verbatim>\<open>strptime\<close> for the formats
  \<^verbatim>\<open>"%Y-%m-%d %H:%M:%S"\<close> and \<^verbatim>\<open>"%Y-%m-%d"\<close> (\<open>None\<close> where it raises
  \<^verbatim>\<open>ValueError\<close>), and the installation date of the configuration. The sink accepts
  every write; \<open>written\<close> records each point with the mode of the write API it went
  through.
\<close>

record env =
  urlopen :: "url \<Rightarrow> http_response"
  query_api :: "flux \<Rightarrow> datetime list list"
  now :: datetime
  local_instant :: "datetime \<Rightarrow> datetime"
  strptime :: "string \<Rightarrow> datetime option"
  strptime_date :: "string \<Rightarrow> datetime option"
  INSTALLATION_DATE :: string

definition io0 :: io where
  "io0 = \<lparr>stdout = [], stderr = [], requests = [], written = []\<rparr>"

definition print_out :: "diag \<Rightarrow> io \<Rightarrow> io" where
  "print_out d s = s\<lparr>stdout := stdout s @ [d]\<rparr>"

definition print_err :: "diag \<Rightarrow> io \<Rightarrow> io" where
  "print_err d s = s\<lparr>stderr := stderr s @ [d]\<rparr>"

definition write_point :: "write_mode \<Rightarrow> point \<Rightarrow> io \<Rightarrow> io" where
  "write_point m p s = s\<lparr>written := written s @ [(m, p)]\<rparr>"

section \<open>The provider client (solaredgemonitor)\<close>

text \<open>
  \<^verbatim>\<open>SolarEdgeMonitor.query\<close>: the handler of \<^verbatim>\<open>HTTPError\<close> prints and falls off the
  end (\<^verbatim>\<open>None\<close>); the handler of \<^verbatim>\<open>JSONDecodeError\<close> formats \<^verbatim>\<open>e.code\<close>, an
  attribute that \<^verbatim>\<open>JSONDecodeError\<close> does not have, so the handler itself raises
  \<^verbatim>\<open>AttributeError\<close> before it prints; any other exception is not caught.
\<close>

definition query :: "env \<Rightarrow> url \<Rightarrow> io \<Rightarrow> (exn + json) \<times> io" where
  "query e u s =
     (let s1 = print_out (Query_line u) (s\<lparr>requests := requests s @ [u]\<rparr>)
      in case urlopen e u of
           Body data \<Rightarrow> (Inr data, s1)
         | HTTPFailure code msg \<Rightarrow> (Inr JNull, print_out (HTTP_error_line code msg) s1)
         | BadBody msg \<Rightarrow> (Inl (AttributeError ''code''), s1)
         | Unreachable msg \<Rightarrow> (Inl (URLError msg), s1))"

text \<open>The tuple \<^verbatim>\<open>(KeyError, TypeError, ValueError)\<close> of the envelope handlers.\<close>

fun shape_error :: "exn \<Rightarrow> bool" where
  "shape_error (KeyError k) = True"
| "shape_error TypeError = True"
| "shape_error ValueError = True"
| "shape_error _ = False"

definition batteries :: "env \<Rightarrow> datetime \<Rightarrow> datetime \<Rightarrow> io \<Rightarrow> (exn + json) \<times> io" where
  "batteries e start_time end_time s =
     (case query e (StorageData start_time end_time) s of
        (Inl x, s1) \<Rightarrow> (Inl x, s1)
      | (Inr data, s1) \<Rightarrow>
          if data = JNull then (Inr JNull, s1)
          else (case py_getitem data ''storageData'' of
                  Inl x \<Rightarrow> if shape_error x then (Inr JNull, print_err (Exn_line x) s1)
                           else (Inl x, s1)
                | Inr sd \<Rightarrow>
                    (case py_getitem sd ''batteries'' of
                       Inl x \<Rightarrow> if shape_error x then (Inr JNull, print_err (Exn_line x) s1)
                                else (Inl x, s1)
                     | Inr b \<Rightarrow> (Inr b, s1))))"

text \<open>\<^verbatim>\<open>power_detail\<close> returns the pair \<^verbatim>\<open>(meters, unit)\<close> or \<^verbatim>\<open>None\<close>.\<close>

definition power_detail ::
  "env \<Rightarrow> datetime \<Rightarrow> datetime \<Rightarrow> io \<Rightarrow> (exn + (json \<times> json) option) \<times> io" where
  "power_detail e start_time end_time s =
     (case query e (PowerDetails start_time end_time) s of
        (Inl x, s1) \<Rightarrow> (Inl x, s1)
      | (Inr data, s1) \<Rightarrow>
          if data = JNull then (Inr None, s1)
          else (case py_getitem data ''powerDetails'' of
                  Inl x \<Rightarrow> if shape_error x then (Inr None, print_err (Exn_line x) s1)
                           else (Inl x, s1)
                | Inr pd \<Rightarrow>
                    (case py_getitem pd ''meters'' of
                       Inl x \<Rightarrow> if shape_error x then (Inr None, print_err (Exn_line x) s1)
                                else (Inl x, s1)
                     | Inr m \<Rightarrow>
                         (case py_getitem pd ''unit'' of
                            Inl x \<Rightarrow> if shape_error x then (Inr None, print_err (Exn_line x) s1)
                                     else (Inl x, s1)
                          | Inr un \<Rightarrow> (Inr (Some (m, un)), s1)))))"

section \<open>fetch-latest.py\<close>

subsection \<open>Resuming: the most recent stored timestamp\<close>

text \<open>
  Lines 43 to 49 and 99 to 105: \<^verbatim>\<open>from_date\<close> starts at
  \<^verbatim>\<open>datetime(2199, 12, 31).astimezone(tz)\<close> (a naive value, read on the local clock)
  and is lowered to every record time below it, table by table.
\<close>

definition lower_to :: "datetime \<Rightarrow> datetime \<Rightarrow> datetime" where
  "lower_to t from_date = (if from_date > t then t else from_date)"

definition far_future :: "env \<Rightarrow> datetime" where
  "far_future e = local_instant e (mk_datetime 2199 12 31 0 0 0)"

definition last_stored :: "env \<Rightarrow> flux \<Rightarrow> datetime" where
  "last_stored e q = fold (\<lambda>records from_date. fold lower_to records from_date)
                          (query_api e q) (far_future e)"

subsection \<open>Battery data\<close>

text \<open>\<^verbatim>\<open>datetime.strptime(v, "%Y-%m-%d %H:%M:%S")\<close> on a JSON value: \<^verbatim>\<open>TypeError\<close>
  unless \<open>v\<close> is a string, \<^verbatim>\<open>ValueError\<close> when the string does not match.\<close>

fun py_strptime :: "env \<Rightarrow> json \<Rightarrow> exn + datetime" where
  "py_strptime e (JStr s) = (case strptime e s of None \<Rightarrow> Inl ValueError | Some t \<Rightarrow> Inr t)"
| "py_strptime e _ = Inl TypeError"

text \<open>Lines 110 to 115: the loop that collects the battery records.\<close>

function battery_loop ::
  "env \<Rightarrow> datetime \<Rightarrow> datetime \<Rightarrow> json list \<Rightarrow> io \<Rightarrow> (exn + json list) \<times> io" where
  "battery_loop e from_date to_date measurements s =
     (if from_date < to_date then
        (let end_date = from_date + MAX_LOOKBACK_BATTERY
         in case batteries e (from_date + MIN_DT) end_date s of
              (Inl x, s1) \<Rightarrow> (Inl x, s1)
            | (Inr new_measurements, s1) \<Rightarrow>
                if new_measurements \<noteq> JNull then
                  (case py_iter new_measurements of
                     Inl x \<Rightarrow> (Inl x, s1)
                   | Inr xs \<Rightarrow> battery_loop e end_date to_date (measurements @ xs) s1)
                else battery_loop e end_date to_date measurements s1)
      else (Inr measurements, s))"
  by pat_completeness auto
termination
  by (relation "measure (\<lambda>(e, from_date, to_date, measurements, s). nat (to_date - from_date))")
     (auto simp: MAX_LOOKBACK_BATTERY_def ONE_WEEK_def weeks_def)

text \<open>Lines 129 to 155: the telemetries of one battery record.\<close>

fun store_telemetries :: "env \<Rightarrow> json \<Rightarrow> json \<Rightarrow> json list \<Rightarrow> io \<Rightarrow> exn option \<times> io" where
  "store_telemetries e model serial_no [] s = (None, s)"
| "store_telemetries e model serial_no (telemetry # rest) s =
     (case py_contains ''timeStamp'' telemetry of
        Inl x \<Rightarrow> (Some x, s)
      | Inr has_ts \<Rightarrow>
     if \<not> has_ts then store_telemetries e model serial_no rest (print_err No_timeStamp s)
     else
     (case py_contains ''batteryPercentageState'' telemetry of
        Inl x \<Rightarrow> (Some x, s)
      | Inr has_pct \<Rightarrow>
     if \<not> has_pct
     then store_telemetries e model serial_no rest (print_err No_batteryPercentageState s)
     else
     (case py_contains ''power'' telemetry of
        Inl x \<Rightarrow> (Some x, s)
      | Inr has_power \<Rightarrow>
     if \<not> has_power then store_telemetries e model serial_no rest (print_err No_power s)
     else
     (case py_getitem telemetry ''timeStamp'' of
        Inl x \<Rightarrow> (Some x, s)
      | Inr stamp \<Rightarrow>
     (case py_strptime e stamp of
        Inl x \<Rightarrow> (Some x, s)
      | Inr naive \<Rightarrow>
     (case py_getitem telemetry ''batteryPercentageState'' of
        Inl x \<Rightarrow> (Some x, s)
      | Inr pct \<Rightarrow>
     (case py_getitem telemetry ''power'' of
        Inl x \<Rightarrow> (Some x, s)
      | Inr watts \<Rightarrow>
     (let ts = local_instant e naive;
          p = \<lparr>measurement = JStr ''battery'',
               tags = [(''battery'', Model_serial model serial_no)],
               time = ts,
               field_values = [(''pct'', pct), (''watts'', watts)]\<rparr>;
          s1 = write_point SYNCHRONOUS p s
      in case py_round watts of
           Inl x \<Rightarrow> (Some x, s1)
         | Inr w \<Rightarrow>
        (case py_round pct of
           Inl x \<Rightarrow> (Some x, s1)
         | Inr c \<Rightarrow>
             store_telemetries e model serial_no rest
               (print_out (Battery_line ts w c) s1))))))))))"

text \<open>Lines 120 to 129: the battery records.\<close>

fun store_batteries :: "env \<Rightarrow> json list \<Rightarrow> io \<Rightarrow> exn option \<times> io" where
  "store_batteries e [] s = (None, s)"
| "store_batteries e (entry # rest) s =
     (case py_contains ''modelNumber'' entry of
        Inl x \<Rightarrow> (Some x, s)
      | Inr has_model \<Rightarrow>
     if \<not> has_model then store_batteries e rest (print_err No_modelNumber s)
     else
     (case py_contains ''serialNumber'' entry of
        Inl x \<Rightarrow> (Some x, s)
      | Inr has_serial \<Rightarrow>
     if \<not> has_serial then store_batteries e rest (print_err No_serialNumber s)
     else
     (case py_getitem entry ''modelNumber'' of
        Inl x \<Rightarrow> (Some x, s)
      | Inr model \<Rightarrow>
     (case py_getitem entry ''serialNumber'' of
        Inl x \<Rightarrow> (Some x, s)
      | Inr serial_no \<Rightarrow>
     (case py_getitem entry ''telemetries'' of
        Inl x \<Rightarrow> (Some x, s)
      | Inr tel \<Rightarrow>
     (case py_iter tel of
        Inl x \<Rightarrow> (Some x, s)
      | Inr telemetries \<Rightarrow>
     (case store_telemetries e model serial_no telemetries s of
        (Some x, s1) \<Rightarrow> (Some x, s1)
      | (None, s1) \<Rightarrow> store_batteries e rest s1)))))))"

definition fetch_and_store_latest_battery_data :: "env \<Rightarrow> io \<Rightarrow> exn option \<times> io" where
  "fetch_and_store_latest_battery_data e s =
     (let from_date = last_stored e Last_any;
          to_date = now e
      in case battery_loop e from_date to_date [] s of
           (Inl x, s1) \<Rightarrow> (Some x, s1)
         | (Inr measurements, s1) \<Rightarrow> store_batteries e measurements s1)"

subsection \<open>Power details\<close>

text \<open>Lines 68 to 79: the samples of one meter entry. The line printed before the write
  formats the value with \<^verbatim>\<open>.0f\<close>.\<close>

fun store_values :: "env \<Rightarrow> json \<Rightarrow> json \<Rightarrow> json list \<Rightarrow> io \<Rightarrow> exn option \<times> io" where
  "store_values e power_type unit [] s = (None, s)"
| "store_values e power_type unit (m # rest) s =
     (case py_contains ''value'' m of
        Inl x \<Rightarrow> (Some x, s)
      | Inr has_value \<Rightarrow>
     if \<not> has_value then store_values e power_type unit rest s
     else
     (case py_getitem m ''date'' of
        Inl x \<Rightarrow> (Some x, s)
      | Inr d \<Rightarrow>
     (case py_strptime e d of
        Inl x \<Rightarrow> (Some x, s)
      | Inr ts \<Rightarrow>
     (case py_getitem m ''value'' of
        Inl x \<Rightarrow> (Some x, s)
      | Inr v \<Rightarrow>
     (let p = \<lparr>measurement = power_type,
               tags = [(''unit'', Tag unit)],
               time = ts,
               field_values = [(''power'', v)]\<rparr>
      in case py_format_f v of
           Inl x \<Rightarrow> (Some x, s)
         | Inr f \<Rightarrow>
             store_values e power_type unit rest
               (write_point ASYNCHRONOUS p (print_out (Power_line ts f unit power_type) s)))))))"

text \<open>Lines 60 to 68: the meter entries of one response.\<close>

fun store_meters :: "env \<Rightarrow> json \<Rightarrow> json list \<Rightarrow> io \<Rightarrow> exn option \<times> io" where
  "store_meters e unit [] s = (None, s)"
| "store_meters e unit (entry # rest) s =
     (case py_contains ''type'' entry of
        Inl x \<Rightarrow> (Some x, s)
      | Inr has_type \<Rightarrow>
     if \<not> has_type then store_meters e unit rest (print_err No_type s)
     else
     (case py_contains ''values'' entry of
        Inl x \<Rightarrow> (Some x, s)
      | Inr has_values \<Rightarrow>
     if \<not> has_values then store_meters e unit rest (print_err No_values s)
     else
     (case py_getitem entry ''type'' of
        Inl x \<Rightarrow> (Some x, s)
      | Inr power_type \<Rightarrow>
     (case py_getitem entry ''values'' of
        Inl x \<Rightarrow> (Some x, s)
      | Inr vals \<Rightarrow>
     (case py_iter vals of
        Inl x \<Rightarrow> (Some x, s)
      | Inr ms \<Rightarrow>
     (case store_values e power_type unit ms s of
        (Some x, s1) \<Rightarrow> (Some x, s1)
      | (None, s1) \<Rightarrow> store_meters e unit rest s1))))))"

text \<open>Lines 55 to 60: the loop. Unpacking \<^verbatim>\<open>meters, unit = None\<close> raises
  \<^verbatim>\<open>TypeError\<close>.\<close>

function power_loop :: "env \<Rightarrow> datetime \<Rightarrow> datetime \<Rightarrow> io \<Rightarrow> exn option \<times> io" where
  "power_loop e from_date to_date s =
     (if from_date < to_date then
        (let end_date = from_date + MAX_LOOKBACK_POWERDETAILS
         in case power_detail e (from_date + MIN_DT) end_date s of
              (Inl x, s1) \<Rightarrow> (Some x, s1)
            | (Inr None, s1) \<Rightarrow> (Some TypeError, s1)
            | (Inr (Some (meters, unit)), s1) \<Rightarrow>
                (case py_iter meters of
                   Inl x \<Rightarrow> (Some x, s1)
                 | Inr entries \<Rightarrow>
                     (case store_meters e unit entries s1 of
                        (Some x, s2) \<Rightarrow> (Some x, s2)
                      | (None, s2) \<Rightarrow> power_loop e end_date to_date s2)))
      else (None, s))"
  by pat_completeness auto
termination
  by (relation "measure (\<lambda>(e, from_date, to_date, s). nat (to_date - from_date))")
     (auto simp: MAX_LOOKBACK_POWERDETAILS_def weeks_def)

definition fetch_and_store_latest_power_details :: "env \<Rightarrow> io \<Rightarrow> exn option \<times> io" where
  "fetch_and_store_latest_power_details e s =
     (let from_date = last_stored e Last_production_consumption;
          to_date = now e
      in power_loop e from_date to_date s)"

text \<open>Lines 166 to 168: one poll cycle.\<close>

definition bgfun :: "env \<Rightarrow> io \<Rightarrow> exn option \<times> io" where
  "bgfun e s =
     (case fetch_and_store_latest_battery_data e s of
        (Some x, s1) \<Rightarrow> (Some x, s1)
      | (None, s1) \<Rightarrow> fetch_and_store_latest_power_details e s1)"

section \<open>fetch-history.py\<close>

text \<open>Lines 24 to 27. \<^verbatim>\<open>measurements += None\<close> raises \<^verbatim>\<open>TypeError\<close>, as
  \<open>py_iter JNull\<close> does. The function returns what it dumps into the file.\<close>

function fetch_and_store_battery_history ::
  "env \<Rightarrow> datetime \<Rightarrow> datetime \<Rightarrow> json list \<Rightarrow> io \<Rightarrow> (exn + json list) \<times> io" where
  "fetch_and_store_battery_history e from_date to_date measurements s =
     (if from_date < to_date then
        (let end_date = from_date + weeks 1
         in case batteries e from_date end_date s of
              (Inl x, s1) \<Rightarrow> (Inl x, s1)
            | (Inr new_measurements, s1) \<Rightarrow>
                (case py_iter new_measurements of
                   Inl x \<Rightarrow> (Inl x, s1)
                 | Inr xs \<Rightarrow>
                     fetch_and_store_battery_history e end_date to_date (measurements @ xs) s1))
      else (Inr measurements, s))"
  by pat_completeness auto
termination
  by (relation "measure (\<lambda>(e, from_date, to_date, measurements, s). nat (to_date - from_date))")
     (auto simp: weeks_def)

text \<open>Lines 56 to 68 of \<^verbatim>\<open>_json_to_db\<close>: no field is tested before it is read.\<close>

fun json_to_db_telemetries :: "env \<Rightarrow> json \<Rightarrow> json \<Rightarrow> json list \<Rightarrow> io \<Rightarrow> exn option \<times> io" where
  "json_to_db_telemetries e model serial_no [] s = (None, s)"
| "json_to_db_telemetries e model serial_no (telemetry # rest) s =
     (case py_getitem telemetry ''timeStamp'' of
        Inl x \<Rightarrow> (Some x, s)
      | Inr stamp \<Rightarrow>
     (case py_strptime e stamp of
        Inl x \<Rightarrow> (Some x, s)
      | Inr ts \<Rightarrow>
     (case py_getitem telemetry ''batteryPercentageState'' of
        Inl x \<Rightarrow> (Some x, s)
      | Inr pct \<Rightarrow>
     (case py_getitem telemetry ''power'' of
        Inl x \<Rightarrow> (Some x, s)
      | Inr watts \<Rightarrow>
     (let p = \<lparr>measurement = JStr ''battery'',
               tags = [(''battery'', Model_serial model serial_no)],
               time = ts,
               field_values = [(''pct'', pct), (''watts'', watts)]\<rparr>
      in json_to_db_telemetries e model serial_no rest (write_point ASYNCHRONOUS p s))))))"

fun json_to_db_entries :: "env \<Rightarrow> json list \<Rightarrow> io \<Rightarrow> exn option \<times> io" where
  "json_to_db_entries e [] s = (None, s)"
| "json_to_db_entries e (entry # rest) s =
     (case py_getitem entry ''modelNumber'' of
        Inl x \<Rightarrow> (Some x, s)
      | Inr model \<Rightarrow>
     (case py_getitem entry ''serialNumber'' of
        Inl x \<Rightarrow> (Some x, s)
      | Inr serial_no \<Rightarrow>
     (case py_getitem entry ''telemetries'' of
        Inl x \<Rightarrow> (Some x, s)
      | Inr tel \<Rightarrow>
     (case py_iter tel of
        Inl x \<Rightarrow> (Some x, s)
      | Inr telemetries \<Rightarrow>
     (case json_to_db_telemetries e model serial_no telemetries s of
        (Some x, s1) \<Rightarrow> (Some x, s1)
      | (None, s1) \<Rightarrow> json_to_db_entries e rest s1)))))"

text \<open>\<^verbatim>\<open>_json_to_db\<close> on the content of the file: the bucket is deleted and created
  again (the created bucket is printed), then every telemetry is written.\<close>

definition json_to_db :: "env \<Rightarrow> json \<Rightarrow> io \<Rightarrow> exn option \<times> io" where
  "json_to_db e data s =
     (let s1 = print_out Bucket_line s
      in case py_iter data of
           Inl x \<Rightarrow> (Some x, s1)
         | Inr entries \<Rightarrow> json_to_db_entries e entries s1)"

text \<open>Lines 71 to 74, with the file as the value handed over. The default of
  \<^verbatim>\<open>to_date\<close> (the time at which the module was loaded) is a parameter.\<close>

definition get_complete_battery_history :: "env \<Rightarrow> datetime \<Rightarrow> io \<Rightarrow> exn option \<times> io" where
  "get_complete_battery_history e to_date s =
     (case fetch_and_store_battery_history e (mk_datetime 2023 8 10 0 0 0) to_date [] s of
        (Inl x, s1) \<Rightarrow> (Some x, s1)
      | (Inr measurements, s1) \<Rightarrow> json_to_db e (JArr measurements) s1)"

text \<open>Lines 103 to 113: the samples of one meter entry, written without a line printed.\<close>

fun history_values :: "env \<Rightarrow> json \<Rightarrow> json \<Rightarrow> json list \<Rightarrow> io \<Rightarrow> exn option \<times> io" where
  "history_values e power_type unit [] s = (None, s)"
| "history_values e power_type unit (m # rest) s =
     (case py_contains ''value'' m of
        Inl x \<Rightarrow> (Some x, s)
      | Inr has_value \<Rightarrow>
     if \<not> has_value then history_values e power_type unit rest s
     else
     (case py_getitem m ''date'' of
        Inl x \<Rightarrow> (Some x, s)
      | Inr d \<Rightarrow>
     (case py_strptime e d of
        Inl x \<Rightarrow> (Some x, s)
      | Inr ts \<Rightarrow>
     (case py_getitem m ''value'' of
        Inl x \<Rightarrow> (Some x, s)
      | Inr v \<Rightarrow>
     (let p = \<lparr>measurement = power_type,
               tags = [(''unit'', Tag unit)],
               time = ts,
               field_values = [(''power'', v)]\<rparr>
      in history_values e power_type unit rest (write_point ASYNCHRONOUS p s))))))"

text \<open>Lines 101 to 103: the meter entries, read without a test.\<close>

fun history_meters :: "env \<Rightarrow> json \<Rightarrow> json list \<Rightarrow> io \<Rightarrow> exn option \<times> io" where
  "history_meters e unit [] s = (None, s)"
| "history_meters e unit (entry # rest) s =
     (case py_getitem entry ''type'' of
        Inl x \<Rightarrow> (Some x, s)
      | Inr power_type \<Rightarrow>
     (case py_getitem entry ''values'' of
        Inl x \<Rightarrow> (Some x, s)
      | Inr vals \<Rightarrow>
     (case py_iter vals of
        Inl x \<Rightarrow> (Some x, s)
      | Inr ms \<Rightarrow>
     (case history_values e power_type unit ms s of
        (Some x, s1) \<Rightarrow> (Some x, s1)
      | (None, s1) \<Rightarrow> history_meters e unit rest s1))))"

text \<open>Lines 95 to 101: the loop of \<^verbatim>\<open>_fetch_and_store_powerdetail_history\<close>.\<close>

function fetch_and_store_powerdetail_history ::
  "env \<Rightarrow> datetime \<Rightarrow> datetime \<Rightarrow> io \<Rightarrow> exn option \<times> io" where
  "fetch_and_store_powerdetail_history e from_date to_date s =
     (if from_date < to_date then
        (let dt = weeks 2;
             end_date = from_date + dt
         in case power_detail e from_date end_date s of
              (Inl x, s1) \<Rightarrow> (Some x, s1)
            | (Inr None, s1) \<Rightarrow> (Some TypeError, s1)
            | (Inr (Some (meters, unit)), s1) \<Rightarrow>
                (case py_iter meters of
                   Inl x \<Rightarrow> (Some x, s1)
                 | Inr entries \<Rightarrow>
                     (case history_meters e unit entries s1 of
                        (Some x, s2) \<Rightarrow> (Some x, s2)
                      | (None, s2) \<Rightarrow>
                          fetch_and_store_powerdetail_history e end_date to_date s2)))
      else (None, s))"
  by pat_completeness auto
termination
  by (relation "measure (\<lambda>(e, from_date, to_date, s). nat (to_date - from_date))")
     (auto simp: weeks_def)

text \<open>Lines 116 to 121: the installation date is parsed with \<^verbatim>\<open>"%Y-%m-%d"\<close> and read
  on the local clock.\<close>

definition get_complete_powerdetail_history :: "env \<Rightarrow> io \<Rightarrow> exn option \<times> io" where
  "get_complete_powerdetail_history e s =
     (case strptime_date e (INSTALLATION_DATE e) of
        None \<Rightarrow> (Some ValueError, s)
      | Some d \<Rightarrow>
          (let from_date = local_instant e d;
               to_date = now e
           in fetch_and_store_powerdetail_history e from_date to_date s))"

section \<open>Windows and request sequences\<close>

text \<open>The number of chunks of width \<open>W\<close> that a range from \<open>S\<close> to \<open>E\<close> needs:
  the ceiling of \<open>(E - S) / W\<close>.\<close>

definition n_chunks :: "datetime \<Rightarrow> datetime \<Rightarrow> timedelta \<Rightarrow> nat" where
  "n_chunks S E W = nat \<lceil>real_of_int (E - S) / real_of_int W\<rceil>"

text \<open>The requests that \<open>n\<close> rounds of the battery loop of \<^verbatim>\<open>fetch-latest.py\<close>
  issue from the cursor \<open>S\<close>, and those of the power-detail loop of
  \<^verbatim>\<open>fetch-history.py\<close>.\<close>

definition battery_requests :: "datetime \<Rightarrow> nat \<Rightarrow> url list" where
  "battery_requests S n =
     map (\<lambda>i. StorageData (S + int i * MAX_LOOKBACK_BATTERY + MIN_DT)
                           (S + (int i + 1) * MAX_LOOKBACK_BATTERY)) [0..<n]"

definition powerdetail_history_requests :: "datetime \<Rightarrow> nat \<Rightarrow> url list" where
  "powerdetail_history_requests S n =
     map (\<lambda>i. PowerDetails (S + int i * weeks 2) (S + (int i + 1) * weeks 2)) [0..<n]"

fun window_start :: "url \<Rightarrow> datetime" where
  "window_start (StorageData a b) = a"
| "window_start (PowerDetails a b) = a"

fun window_end :: "url \<Rightarrow> datetime" where
  "window_end (StorageData a b) = b"
| "window_end (PowerDetails a b) = b"

fun window :: "url \<Rightarrow> datetime \<times> datetime" where
  "window u = (window_start u, window_end u)"

text \<open>The windows as the specification describes them: the cursor starts at the
  requested start; while it is before the end, the next cursor is the minimum of cursor
  plus chunk and the end, and the window from the cursor to the next cursor is requested.
  (The chunk is a positive duration.)\<close>

function spec_windows :: "timedelta \<Rightarrow> datetime \<Rightarrow> datetime \<Rightarrow> (datetime \<times> datetime) list" where
  "spec_windows max_chunk cursor end =
     (if cursor < end \<and> 0 < max_chunk then
        (let next_cursor = min (cursor + max_chunk) end
         in (cursor, next_cursor) # spec_windows max_chunk next_cursor end)
      else [])"
  by pat_completeness auto
termination
  by (relation "measure (\<lambda>(max_chunk, cursor, end). nat (end - cursor))") auto

section \<open>Sample environments\<close>

text \<open>Parsers that know the strings of the examples: \<^verbatim>\<open>strptime\<close> with the format
  \<^verbatim>\<open>"%Y-%m-%d %H:%M:%S"\<close> and with the format \<^verbatim>\<open>"%Y-%m-%d"\<close>.\<close>

definition sample_strptime :: "string \<Rightarrow> datetime option" where
  "sample_strptime str =
     (if str = ''2024-01-01 00:00:00'' then Some (mk_datetime 2024 1 1 0 0 0)
      else if str = ''2023-08-19 12:00:00'' then Some (mk_datetime 2023 8 19 12 0 0)
      else None)"

definition sample_strptime_date :: "string \<Rightarrow> datetime option" where
  "sample_strptime_date str =
     (if str = ''2023-08-10'' then Some (mk_datetime 2023 8 10 0 0 0) else None)"

text \<open>A provider that answers every request with status 500, over an empty sink, on
  2023-08-20, the local clock being UTC.\<close>

definition env_down :: env where
  "env_down =
     \<lparr>urlopen = (\<lambda>u. HTTPFailure 500 ''Internal Server Error''),
      query_api = (\<lambda>q. []),
      now = mk_datetime 2023 8 20 0 0 0,
      local_instant = (\<lambda>t. t),
      strptime = sample_strptime,
      strptime_date = sample_strptime_date,
      INSTALLATION_DATE = ''2023-08-10''\<rparr>"

text \<open>A sink whose two series end at 12:00 and at 11:45 on 2023-08-19.\<close>

definition env_two_series :: env where
  "env_two_series =
     env_down\<lparr>query_api := (\<lambda>q. [[mk_datetime 2023 8 19 12 0 0], [mk_datetime 2023 8 19 11 45 0]])\<rparr>"

text \<open>The start of the fetch window as the specification describes it: the resolver's
  timestamp, and the installation date in its place when the resolver yields the
  far-future timestamp.\<close>

definition spec_from_date :: "env \<Rightarrow> flux \<Rightarrow> datetime option" where
  "spec_from_date e q =
     (if last_stored e q = far_future e
      then map_option (local_instant e) (strptime_date e (INSTALLATION_DATE e))
      else Some (last_stored e q))"

text \<open>The meter entry of the example, a battery record with one telemetry, and the same
  record without its serial number and without its model number.\<close>

definition production_entry :: json where
  "production_entry =
     JObj [(''type'', JStr ''Production''),
           (''values'', JArr [JObj [(''date'', JStr ''2024-01-01 00:00:00''),
                                    (''value'', JNum 1500)]])]"

definition telemetry_noon :: json where
  "telemetry_noon =
     JObj [(''timeStamp'', JStr ''2023-08-19 12:00:00''),
           (''batteryPercentageState'', JNum 80),
           (''power'', JNum 250)]"

definition battery_record :: json where
  "battery_record =
     JObj [(''modelNumber'', JStr ''RESU10''),
           (''serialNumber'', JStr ''SN1''),
           (''telemetries'', JArr [telemetry_noon])]"

definition battery_without_serial :: json where
  "battery_without_serial =
     JObj [(''modelNumber'', JStr ''RESU10''),
           (''telemetries'', JArr [telemetry_noon])]"

definition battery_without_model :: json where
  "battery_without_model =
     JObj [(''serialNumber'', JStr ''SN1''),
           (''telemetries'', JArr [telemetry_noon])]"

definition battery_point :: point where
  "battery_point =
     \<lparr>measurement = JStr ''battery'',
      tags = [(''battery'', Model_serial (JStr ''RESU10'') (JStr ''SN1''))],
      time = mk_datetime 2023 8 19 12 0 0,
      field_values = [(''pct'', JNum 80), (''watts'', JNum 250)]\<rparr>"

text \<open>A provider whose every body is not JSON, and a sink whose last record is of
  2023-07-10 over a provider that answers every request with status 500.\<close>

definition env_garbled :: env where
  "env_garbled = env_down\<lparr>urlopen := (\<lambda>u. BadBody ''Expecting value'')\<rparr>"

definition env_lagging :: env where
  "env_lagging = env_down\<lparr>query_api := (\<lambda>q. [[mk_datetime 2023 7 10 0 0 0]])\<rparr>"

text \<open>A battery record with its identity fields and no \<open>telemetries\<close>, and a meter entry
  whose sample has a \<open>value\<close> and no \<open>date\<close>.\<close>

definition battery_without_telemetries :: json where
  "battery_without_telemetries =
     JObj [(''modelNumber'', JStr ''RESU10''), (''serialNumber'', JStr ''SN1'')]"

definition entry_without_date :: json where
  "entry_without_date =
     JObj [(''type'', JStr ''Production''), (''values'', JArr [JObj [(''value'', JNum 1500)]])]"

text \<open>The dispatch modes of the writes recorded in a state.\<close>

definition modes :: "io \<Rightarrow> write_mode set" where
  "modes s = fst ` set (written s)"

text \<open>A provider that answers every storage request with the battery record of the
  example and every power-detail request with the meter entry of the example, over a sink
  whose last record is of 2023-08-19 12:00.\<close>

fun site_response :: "url \<Rightarrow> http_response" where
  "site_response (StorageData a b) =
     Body (JObj [(''storageData'',
                  JObj [(''batteryCount'', JNum 1), (''batteries'', JArr [battery_record])])])"
| "site_response (PowerDetails a b) =
     Body (JObj [(''powerDetails'',
                  JObj [(''timeUnit'', JStr ''QUARTER_OF_AN_HOUR''),
                        (''unit'', JStr ''W''),
                        (''meters'', JArr [production_entry])])])"

definition env_site :: env where
  "env_site =
     env_down\<lparr>urlopen := site_response,
              query_api := (\<lambda>q. [[mk_datetime 2023 8 19 12 0 0]])\<rparr>"

section \<open>Auxiliary facts\<close>

declare battery_loop.simps [simp del]
declare power_loop.simps [simp del]
declare fetch_and_store_battery_history.simps [simp del]
declare fetch_and_store_powerdetail_history.simps [simp del]

declare spec_windows.simps [simp del]

subsection \<open>Chunk arithmetic\<close>

lemma n_chunks_0: "E \<le> S \<Longrightarrow> 0 < W \<Longrightarrow> n_chunks S E W = 0"
  by (simp add: n_chunks_def divide_le_0_iff)

lemma n_chunks_Suc: "S < E \<Longrightarrow> 0 < W \<Longrightarrow> n_chunks S E W = Suc (n_chunks (S + W) E W)"
proof -
  assume a: "S < E" "0 < W"
  have "real_of_int (E - S) / real_of_int W = real_of_int (E - (S + W)) / real_of_int W + 1"
    using a by (simp add: field_simps)
  moreover have "- 1 < real_of_int (E - (S + W)) / real_of_int W"
    using a by (simp add: field_simps)
  ultimately show ?thesis
    unfolding n_chunks_def by (simp add: nat_add_distrib del: of_int_diff of_int_add)
qed

lemma div_bounds:
  fixes a W :: int
  assumes "0 < W"
  shows "(a div W) * W \<le> a" and "a < (a div W + 1) * W"
proof -
  have e: "(a div W) * W = a - a mod W" by (simp add: minus_mod_eq_div_mult)
  have m: "0 \<le> a mod W" "a mod W < W" using assms by simp_all
  show "(a div W) * W \<le> a" using e m by linarith
  have "(a div W + 1) * W = (a div W) * W + W" by (simp add: algebra_simps)
  then show "a < (a div W + 1) * W" using e m by linarith
qed

lemma n_chunks_cover:
  assumes "S < E" "0 < W"
  shows "E \<le> S + int (n_chunks S E W) * W \<and> S + int (n_chunks S E W) * W < E + W"
proof -
  let ?q = "(S - E) div W"
  have c: "\<lceil>real_of_int (E - S) / real_of_int W\<rceil> = - ?q"
    using ceiling_divide_eq_div [of "E - S" W] by simp
  have "?q * W \<le> S - E" "S - E < (?q + 1) * W"
    using div_bounds [OF assms(2), of "S - E"] by simp_all
  moreover have "?q \<le> 0"
    using assms div_neg_pos_less0 [of "S - E" W] by simp
  ultimately show ?thesis
    unfolding n_chunks_def c by (simp add: algebra_simps)
qed

lemma tile_unique:
  assumes "0 < W" "S \<le> t" "t < S + int n * W"
  shows "\<exists>!i. i < n \<and> S + int i * W \<le> t \<and> t < S + (int i + 1) * W"
proof
  let ?q = "(t - S) div W"
  have q0: "0 \<le> ?q" using assms by (simp add: pos_imp_zdiv_nonneg_iff)
  have lo: "?q * W \<le> t - S" and hi: "t - S < (?q + 1) * W"
    using div_bounds [OF assms(1), of "t - S"] by simp_all
  have "?q * W < int n * W" using lo assms by linarith
  then have "?q < int n" using assms by (simp add: mult_less_cancel_right)
  then show "nat ?q < n \<and> S + int (nat ?q) * W \<le> t \<and> t < S + (int (nat ?q) + 1) * W"
    using q0 lo hi by simp
next
  fix i
  let ?q = "(t - S) div W"
  assume a: "i < n \<and> S + int i * W \<le> t \<and> t < S + (int i + 1) * W"
  have lo: "?q * W \<le> t - S" and hi: "t - S < (?q + 1) * W"
    using div_bounds [OF assms(1), of "t - S"] by simp_all
  have "int i * W < (?q + 1) * W" using a hi by linarith
  then have 1: "int i < ?q + 1" using assms by (simp add: mult_less_cancel_right)
  have "?q * W < (int i + 1) * W" using a lo by linarith
  then have 2: "?q < int i + 1" using assms by (simp add: mult_less_cancel_right)
  show "i = nat ?q" using 1 2 by linarith
qed

subsection \<open>The requests of each loop\<close>

lemma requests_print_out [simp]: "requests (print_out d s) = requests s"
  by (simp add: print_out_def)

lemma requests_print_err [simp]: "requests (print_err d s) = requests s"
  by (simp add: print_err_def)

lemma requests_write_point [simp]: "requests (write_point m p s) = requests s"
  by (simp add: write_point_def)

lemma MAX_LOOKBACK_BATTERY_pos: "0 < MAX_LOOKBACK_BATTERY"
  by (simp add: MAX_LOOKBACK_BATTERY_def ONE_WEEK_def weeks_def)

lemma weeks_2_pos: "0 < weeks 2"
  by (simp add: weeks_def)

lemma battery_requests_0 [simp]: "battery_requests S 0 = []"
  by (simp add: battery_requests_def)

lemma battery_requests_Suc:
  "battery_requests S (Suc n) =
     StorageData (S + MIN_DT) (S + MAX_LOOKBACK_BATTERY)
       # battery_requests (S + MAX_LOOKBACK_BATTERY) n"
  unfolding battery_requests_def
  by (simp add: upt_conv_Cons map_Suc_upt [symmetric] algebra_simps del: upt_Suc)

lemma powerdetail_history_requests_0 [simp]: "powerdetail_history_requests S 0 = []"
  by (simp add: powerdetail_history_requests_def)

lemma powerdetail_history_requests_Suc:
  "powerdetail_history_requests S (Suc n) =
     PowerDetails S (S + weeks 2) # powerdetail_history_requests (S + weeks 2) n"
  unfolding powerdetail_history_requests_def
  by (simp add: upt_conv_Cons map_Suc_upt [symmetric] algebra_simps del: upt_Suc)

lemma batteries_requests:
  "batteries e a b s = (r, s1) \<Longrightarrow> requests s1 = requests s @ [StorageData a b]"
  by (auto simp: batteries_def query_def print_out_def print_err_def Let_def
           split: http_response.splits sum.splits if_splits)

lemma power_detail_requests:
  "power_detail e a b s = (r, s1) \<Longrightarrow> requests s1 = requests s @ [PowerDetails a b]"
  by (auto simp: power_detail_def query_def print_out_def print_err_def Let_def
           split: http_response.splits sum.splits if_splits)

lemma battery_loop_done:
  "\<not> from_date < to_date \<Longrightarrow> battery_loop e from_date to_date ms s = (Inr ms, s)"
  by (subst battery_loop.simps) simp

lemma battery_loop_step:
  "from_date < to_date \<Longrightarrow>
   battery_loop e from_date to_date ms s =
     (case batteries e (from_date + MIN_DT) (from_date + MAX_LOOKBACK_BATTERY) s of
        (Inl x, s1) \<Rightarrow> (Inl x, s1)
      | (Inr new_measurements, s1) \<Rightarrow>
          if new_measurements \<noteq> JNull then
            (case py_iter new_measurements of
               Inl x \<Rightarrow> (Inl x, s1)
             | Inr xs \<Rightarrow> battery_loop e (from_date + MAX_LOOKBACK_BATTERY) to_date (ms @ xs) s1)
          else battery_loop e (from_date + MAX_LOOKBACK_BATTERY) to_date ms s1)"
  by (subst battery_loop.simps) (simp add: Let_def)

lemma battery_loop_requests:
  "\<exists>k\<le>n_chunks S E MAX_LOOKBACK_BATTERY.
     requests (snd (battery_loop e S E ms s)) = requests s @ battery_requests S k \<and>
     (isl (fst (battery_loop e S E ms s)) \<or> k = n_chunks S E MAX_LOOKBACK_BATTERY) \<and>
     (if S < E then 0 < k else k = 0)"
proof (induction e S E ms s rule: battery_loop.induct)
  case (1 e from_date to_date measurements s)
  let ?W = MAX_LOOKBACK_BATTERY
  show ?case
  proof (cases "from_date < to_date")
    case False
    then show ?thesis
      by (simp add: battery_loop_done n_chunks_0 MAX_LOOKBACK_BATTERY_pos)
  next
    case True
    obtain r s1 where b: "batteries e (from_date + MIN_DT) (from_date + ?W) s = (r, s1)"
      by (cases "batteries e (from_date + MIN_DT) (from_date + ?W) s")
    have rq: "requests s1 = requests s @ [StorageData (from_date + MIN_DT) (from_date + ?W)]"
      using b by (rule batteries_requests)
    have n: "n_chunks from_date to_date ?W = Suc (n_chunks (from_date + ?W) to_date ?W)"
      using True by (rule n_chunks_Suc) (rule MAX_LOOKBACK_BATTERY_pos)
    have stop: ?thesis if "battery_loop e from_date to_date measurements s = (Inl x, s1)" for x
    proof -
      have "requests (snd (battery_loop e from_date to_date measurements s))
              = requests s @ battery_requests from_date 1"
        using that rq by (simp add: battery_requests_Suc)
      moreover have "1 \<le> n_chunks from_date to_date ?W" using n by simp
      ultimately show ?thesis using that True by (intro exI [of _ 1]) simp
    qed
    have continue: ?thesis
      if eq: "battery_loop e from_date to_date measurements s
                = battery_loop e (from_date + ?W) to_date acc s1"
      and ih: "\<exists>k\<le>n_chunks (from_date + ?W) to_date ?W.
                 requests (snd (battery_loop e (from_date + ?W) to_date acc s1))
                   = requests s1 @ battery_requests (from_date + ?W) k \<and>
                 (isl (fst (battery_loop e (from_date + ?W) to_date acc s1)) \<or>
                  k = n_chunks (from_date + ?W) to_date ?W) \<and>
                 (if from_date + ?W < to_date then 0 < k else k = 0)" for acc
    proof -
      from ih obtain k where k: "k \<le> n_chunks (from_date + ?W) to_date ?W"
        "requests (snd (battery_loop e (from_date + ?W) to_date acc s1))
           = requests s1 @ battery_requests (from_date + ?W) k"
        "isl (fst (battery_loop e (from_date + ?W) to_date acc s1)) \<or>
           k = n_chunks (from_date + ?W) to_date ?W"
        by blast
      show ?thesis
        using k n rq True unfolding eq
        by (intro exI [of _ "Suc k"]) (auto simp: battery_requests_Suc)
    qed
    show ?thesis
    proof (cases r)
      case (Inl x)
      with True b show ?thesis by (intro stop [of x]) (simp add: battery_loop_step)
    next
      case (Inr new)
      show ?thesis
      proof (cases "new = JNull")
        case True
        with \<open>from_date < to_date\<close> b Inr
        have "battery_loop e from_date to_date measurements s
                = battery_loop e (from_date + ?W) to_date measurements s1"
          by (simp add: battery_loop_step)
        then show ?thesis
          using "1.IH"(2) [OF \<open>from_date < to_date\<close> refl b [symmetric] Inr] True
          by (intro continue) simp_all
      next
        case False
        show ?thesis
        proof (cases "py_iter new")
          case (Inl x)
          with \<open>from_date < to_date\<close> b Inr False show ?thesis
            by (intro stop [of x]) (simp add: battery_loop_step)
        next
          case it: (Inr xs)
          with \<open>from_date < to_date\<close> b Inr False
          have "battery_loop e from_date to_date measurements s
                  = battery_loop e (from_date + ?W) to_date (measurements @ xs) s1"
            by (simp add: battery_loop_step)
          then show ?thesis
            using "1.IH"(1) [OF \<open>from_date < to_date\<close> refl b [symmetric] Inr False it]
            by (intro continue) simp_all
        qed
      qed
    qed
  qed
qed

lemma battery_loop_no_data:
  assumes "\<And>a b s. fst (batteries e a b s) = Inr JNull"
  shows "fst (battery_loop e S E ms s) = Inr ms"
  using assms
proof (induction e S E ms s rule: battery_loop.induct)
  case (1 e from_date to_date measurements s)
  show ?case
  proof (cases "from_date < to_date")
    case False
    then show ?thesis by (simp add: battery_loop_done)
  next
    case True
    obtain r s1 where
      b: "batteries e (from_date + MIN_DT) (from_date + MAX_LOOKBACK_BATTERY) s = (r, s1)"
      by (cases "batteries e (from_date + MIN_DT) (from_date + MAX_LOOKBACK_BATTERY) s")
    with "1.prems" [of "from_date + MIN_DT" "from_date + MAX_LOOKBACK_BATTERY" s]
    have r: "r = Inr JNull" by simp
    from "1.IH"(2) [OF True refl b [symmetric] r _ "1.prems"] True b r
    show ?thesis by (simp add: battery_loop_step)
  qed
qed

lemma history_values_requests:
  "requests (snd (history_values e t u ms s)) = requests s"
  by (induction e t u ms s rule: history_values.induct)
     (simp_all add: Let_def split: sum.splits)

lemma history_meters_requests:
  "requests (snd (history_meters e u es s)) = requests s"
proof (induction e u es s rule: history_meters.induct)
  case (1 e unit s)
  show ?case by simp
next
  case (2 e unit entry rest s)
  show ?case
    using 2 history_values_requests
    by (auto split: sum.splits option.splits prod.splits) (metis snd_conv)+
qed

lemma powerdetail_history_done:
  "\<not> from_date < to_date \<Longrightarrow> fetch_and_store_powerdetail_history e from_date to_date s = (None, s)"
  by (subst fetch_and_store_powerdetail_history.simps) simp

lemma powerdetail_history_step:
  "from_date < to_date \<Longrightarrow>
   fetch_and_store_powerdetail_history e from_date to_date s =
     (case power_detail e from_date (from_date + weeks 2) s of
        (Inl x, s1) \<Rightarrow> (Some x, s1)
      | (Inr None, s1) \<Rightarrow> (Some TypeError, s1)
      | (Inr (Some (meters, unit)), s1) \<Rightarrow>
          (case py_iter meters of
             Inl x \<Rightarrow> (Some x, s1)
           | Inr entries \<Rightarrow>
               (case history_meters e unit entries s1 of
                  (Some x, s2) \<Rightarrow> (Some x, s2)
                | (None, s2) \<Rightarrow>
                    fetch_and_store_powerdetail_history e (from_date + weeks 2) to_date s2)))"
  by (subst fetch_and_store_powerdetail_history.simps) (simp add: Let_def)

lemma powerdetail_history_requests:
  "\<exists>k\<le>n_chunks S E (weeks 2).
     requests (snd (fetch_and_store_powerdetail_history e S E s))
       = requests s @ powerdetail_history_requests S k \<and>
     (fst (fetch_and_store_powerdetail_history e S E s) \<noteq> None \<or> k = n_chunks S E (weeks 2)) \<and>
     (if S < E then 0 < k else k = 0)"
proof (induction e S E s rule: fetch_and_store_powerdetail_history.induct)
  case (1 e from_date to_date s)
  let ?W = "weeks 2"
  let ?loop = fetch_and_store_powerdetail_history
  show ?case
  proof (cases "from_date < to_date")
    case False
    then show ?thesis
      by (simp add: powerdetail_history_done n_chunks_0 weeks_2_pos)
  next
    case True
    obtain r s1 where b: "power_detail e from_date (from_date + ?W) s = (r, s1)"
      by (cases "power_detail e from_date (from_date + ?W) s")
    have rq: "requests s1 = requests s @ [PowerDetails from_date (from_date + ?W)]"
      using b by (rule power_detail_requests)
    have n: "n_chunks from_date to_date ?W = Suc (n_chunks (from_date + ?W) to_date ?W)"
      using True by (rule n_chunks_Suc) (rule weeks_2_pos)
    have stop: ?thesis
      if "?loop e from_date to_date s = (Some x, s2)" "requests s2 = requests s1" for x s2
    proof -
      have "requests (snd (?loop e from_date to_date s))
              = requests s @ powerdetail_history_requests from_date 1"
        using that rq by (simp add: powerdetail_history_requests_Suc)
      moreover have "1 \<le> n_chunks from_date to_date ?W" using n by simp
      ultimately show ?thesis using that True by (intro exI [of _ 1]) simp
    qed
    show ?thesis
    proof (cases r)
      case (Inl x)
      with True b show ?thesis by (intro stop [of x s1]) (simp_all add: powerdetail_history_step)
    next
      case (Inr res)
      show ?thesis
      proof (cases res)
        case None
        with True b Inr show ?thesis
          by (intro stop [of TypeError s1]) (simp_all add: powerdetail_history_step)
      next
        case (Some mu)
        obtain meters unit where mu: "mu = (meters, unit)" by (cases mu)
        show ?thesis
        proof (cases "py_iter meters")
          case (Inl x)
          with True b Inr Some mu show ?thesis
            by (intro stop [of x s1]) (simp_all add: powerdetail_history_step)
        next
          case it: (Inr entries)
          obtain r2 s2 where h: "history_meters e unit entries s1 = (r2, s2)"
            by (cases "history_meters e unit entries s1")
          have rq2: "requests s2 = requests s1"
            using history_meters_requests [of e unit entries s1] h by simp
          show ?thesis
          proof (cases r2)
            case (Some x)
            with True b Inr \<open>res = Some mu\<close> mu it h rq2 show ?thesis
              by (intro stop [of x s2]) (simp_all add: powerdetail_history_step)
          next
            case None
            with True b Inr \<open>res = Some mu\<close> mu it h
            have eq: "?loop e from_date to_date s = ?loop e (from_date + ?W) to_date s2"
              by (simp add: powerdetail_history_step)
            from "1.IH" [OF True refl refl b [symmetric] Inr \<open>res = Some mu\<close> mu [symmetric] it
                            h [symmetric] None]
            obtain k where k: "k \<le> n_chunks (from_date + ?W) to_date ?W"
              "requests (snd (?loop e (from_date + ?W) to_date s2))
                 = requests s2 @ powerdetail_history_requests (from_date + ?W) k"
              "fst (?loop e (from_date + ?W) to_date s2) \<noteq> None \<or>
                 k = n_chunks (from_date + ?W) to_date ?W"
              by blast
            show ?thesis
              using k n rq rq2 True unfolding eq
              by (intro exI [of _ "Suc k"]) (auto simp: powerdetail_history_requests_Suc)
          qed
        qed
      qed
    qed
  qed
qed

lemma battery_requests_distinct: "distinct (battery_requests S k)"
  unfolding battery_requests_def
  using MAX_LOOKBACK_BATTERY_pos by (auto simp: distinct_map inj_on_def)

lemma battery_requests_sorted:
  "sorted_wrt (\<lambda>u v. window_start u < window_start v) (battery_requests S k)"
  unfolding battery_requests_def
  using MAX_LOOKBACK_BATTERY_pos
  by (auto simp: sorted_wrt_map intro!: sorted_wrt_mono_rel [OF _ sorted_wrt_upt])

lemma powerdetail_history_requests_distinct: "distinct (powerdetail_history_requests S k)"
  unfolding powerdetail_history_requests_def
  using weeks_2_pos by (auto simp: distinct_map inj_on_def)

lemma powerdetail_history_requests_sorted:
  "sorted_wrt (\<lambda>u v. window_start u < window_start v) (powerdetail_history_requests S k)"
  unfolding powerdetail_history_requests_def
  using weeks_2_pos
  by (auto simp: sorted_wrt_map intro!: sorted_wrt_mono_rel [OF _ sorted_wrt_upt])

lemma env_down_batteries: "fst (batteries env_down a b s) = Inr JNull"
  by (simp add: batteries_def query_def env_down_def)


lemma lower_to_min: "lower_to = min"
  by (auto simp: fun_eq_iff lower_to_def min_def)

lemma fold_fold_concat: "fold (\<lambda>xs a. fold f xs a) xss a = fold f (concat xss) a"
  by (induction xss arbitrary: a) simp_all

lemma last_stored_fold: "last_stored e q = fold min (concat (query_api e q)) (far_future e)"
  by (simp add: last_stored_def lower_to_min fold_fold_concat)

lemma fold_min_Min: "fold min ts (a::int) = Min (insert a (set ts))"
  using Min.set_eq_fold [of a ts] by simp

lemma fold_min_below:
  assumes "ts \<noteq> []" "\<forall>t\<in>set ts. t \<le> a"
  shows "fold min ts (a::int) = Min (set ts)"
proof -
  have "Min (set ts) \<in> set ts" using assms(1) by (intro Min_in) simp_all
  then have "Min (set ts) \<le> a" using assms(2) by blast
  moreover have "Min (insert a (set ts)) = min a (Min (set ts))"
    using assms(1) by (intro Min_insert) simp_all
  ultimately show ?thesis by (simp add: fold_min_Min min_def)
qed

lemma last_stored_empty:
  assumes "concat (query_api e q) = []"
  shows "last_stored e q = far_future e"
  unfolding last_stored_fold assms by simp

lemma power_loop_done:
  "\<not> from_date < to_date \<Longrightarrow> power_loop e from_date to_date s = (None, s)"
  by (subst power_loop.simps) simp

lemma power_loop_step:
  "from_date < to_date \<Longrightarrow>
   power_loop e from_date to_date s =
     (case power_detail e (from_date + MIN_DT) (from_date + MAX_LOOKBACK_POWERDETAILS) s of
        (Inl x, s1) \<Rightarrow> (Some x, s1)
      | (Inr None, s1) \<Rightarrow> (Some TypeError, s1)
      | (Inr (Some (meters, unit)), s1) \<Rightarrow>
          (case py_iter meters of
             Inl x \<Rightarrow> (Some x, s1)
           | Inr entries \<Rightarrow>
               (case store_meters e unit entries s1 of
                  (Some x, s2) \<Rightarrow> (Some x, s2)
                | (None, s2) \<Rightarrow>
                    power_loop e (from_date + MAX_LOOKBACK_POWERDETAILS) to_date s2)))"
  by (subst power_loop.simps) (simp add: Let_def)

lemma modes_print_out [simp]: "modes (print_out d s) = modes s"
  by (simp add: modes_def print_out_def)

lemma modes_print_err [simp]: "modes (print_err d s) = modes s"
  by (simp add: modes_def print_err_def)

lemma modes_write_point [simp]: "modes (write_point m p s) = insert m (modes s)"
  by (auto simp: modes_def write_point_def)

lemma modes_trans:
  "modes s1 \<subseteq> insert m (modes s) \<Longrightarrow> modes s2 \<subseteq> insert m (modes s1) \<Longrightarrow>
   modes s2 \<subseteq> insert m (modes s)"
  by blast

lemma modes_query: "modes (snd (query e u s)) = modes s"
  by (simp add: query_def modes_def print_out_def Let_def split: http_response.splits)

lemma modes_batteries: "modes (snd (batteries e a b s)) = modes s"
proof -
  obtain r s1 where q: "query e (StorageData a b) s = (r, s1)"
    by (cases "query e (StorageData a b) s")
  with modes_query [of e "StorageData a b" s] have "modes s1 = modes s" by simp
  with q show ?thesis
    by (simp add: batteries_def split: sum.splits)
qed

lemma modes_power_detail: "modes (snd (power_detail e a b s)) = modes s"
proof -
  obtain r s1 where q: "query e (PowerDetails a b) s = (r, s1)"
    by (cases "query e (PowerDetails a b) s")
  with modes_query [of e "PowerDetails a b" s] have "modes s1 = modes s" by simp
  with q show ?thesis
    by (simp add: power_detail_def split: sum.splits)
qed

lemma modes_store_values:
  "modes (snd (store_values e t u ms s)) \<subseteq> insert ASYNCHRONOUS (modes s)"
  by (induction e t u ms s rule: store_values.induct)
     (simp_all add: Let_def subset_insertI split: sum.splits)

lemma modes_history_values:
  "modes (snd (history_values e t u ms s)) \<subseteq> insert ASYNCHRONOUS (modes s)"
  by (induction e t u ms s rule: history_values.induct)
     (simp_all add: Let_def subset_insertI split: sum.splits)

lemma modes_json_to_db_telemetries:
  "modes (snd (json_to_db_telemetries e m n ts s)) \<subseteq> insert ASYNCHRONOUS (modes s)"
  by (induction e m n ts s rule: json_to_db_telemetries.induct)
     (simp_all add: Let_def subset_insertI split: sum.splits)

lemma modes_store_telemetries:
  "modes (snd (store_telemetries e m n ts s)) \<subseteq> insert SYNCHRONOUS (modes s)"
  by (induction e m n ts s rule: store_telemetries.induct)
     (simp_all add: Let_def subset_insertI split: sum.splits)

lemma modes_seq:
  assumes "modes (snd (f s)) \<subseteq> insert m (modes s)"
    and "\<And>s1. f s = (None, s1) \<Longrightarrow> modes (snd (g s1)) \<subseteq> insert m (modes s1)"
  shows "modes (snd (case f s of (Some x, s1) \<Rightarrow> (Some x, s1) | (None, s1) \<Rightarrow> g s1))
           \<subseteq> insert m (modes s)"
proof (cases "f s")
  case (Pair r s1)
  with assms(1) have 1: "modes s1 \<subseteq> insert m (modes s)" by simp
  show ?thesis
  proof (cases r)
    case None
    with Pair assms(2) [of s1] 1 show ?thesis by (auto simp del: subset_insert_iff)
  next
    case (Some x)
    with Pair 1 show ?thesis by simp
  qed
qed

lemma modes_store_meters:
  "modes (snd (store_meters e u es s)) \<subseteq> insert ASYNCHRONOUS (modes s)"
proof (induction e u es s rule: store_meters.induct)
  case (1 e unit s)
  show ?case by (simp add: subset_insertI)
next
  case (2 e unit entry rest s)
  show ?case
    using "2.IH"
    apply (simp add: subset_insertI split: sum.splits)
    apply (intro allI impI conjI modes_seq modes_store_values)
    apply (metis (full_types))
    done
qed

lemma modes_history_meters:
  "modes (snd (history_meters e u es s)) \<subseteq> insert ASYNCHRONOUS (modes s)"
proof (induction e u es s rule: history_meters.induct)
  case (1 e unit s)
  show ?case by (simp add: subset_insertI)
next
  case (2 e unit entry rest s)
  show ?case
    using "2.IH"
    apply (simp add: subset_insertI split: sum.splits)
    apply (intro allI impI conjI modes_seq modes_history_values)
    apply (metis (full_types))
    done
qed

lemma modes_json_to_db_entries:
  "modes (snd (json_to_db_entries e es s)) \<subseteq> insert ASYNCHRONOUS (modes s)"
proof (induction e es s rule: json_to_db_entries.induct)
  case (1 e s)
  show ?case by (simp add: subset_insertI)
next
  case (2 e entry rest s)
  show ?case
    using "2.IH"
    apply (simp add: subset_insertI split: sum.splits)
    apply (intro allI impI conjI modes_seq modes_json_to_db_telemetries)
    apply (metis (full_types))
    done
qed

lemma modes_store_batteries:
  "modes (snd (store_batteries e es s)) \<subseteq> insert SYNCHRONOUS (modes s)"
proof (induction e es s rule: store_batteries.induct)
  case (1 e s)
  show ?case by (simp add: subset_insertI)
next
  case (2 e entry rest s)
  show ?case
    using "2.IH"
    apply (simp add: subset_insertI split: sum.splits)
    apply (intro allI impI conjI modes_seq modes_store_telemetries)
    apply (metis (full_types))
    done
qed

lemma battery_history_done:
  "\<not> from_date < to_date \<Longrightarrow>
   fetch_and_store_battery_history e from_date to_date ms s = (Inr ms, s)"
  by (subst fetch_and_store_battery_history.simps) simp

lemma battery_history_step:
  "from_date < to_date \<Longrightarrow>
   fetch_and_store_battery_history e from_date to_date ms s =
     (case batteries e from_date (from_date + weeks 1) s of
        (Inl x, s1) \<Rightarrow> (Inl x, s1)
      | (Inr new_measurements, s1) \<Rightarrow>
          (case py_iter new_measurements of
             Inl x \<Rightarrow> (Inl x, s1)
           | Inr xs \<Rightarrow>
               fetch_and_store_battery_history e (from_date + weeks 1) to_date (ms @ xs) s1))"
  by (subst fetch_and_store_battery_history.simps) (simp add: Let_def)

lemma modes_power_loop:
  "modes (snd (power_loop e S E s)) \<subseteq> insert ASYNCHRONOUS (modes s)"
proof (induction e S E s rule: power_loop.induct)
  case (1 e from_date to_date s)
  let ?W = MAX_LOOKBACK_POWERDETAILS
  show ?case
  proof (cases "from_date < to_date")
    case False
    then show ?thesis by (simp add: power_loop_done subset_insertI)
  next
    case True
    obtain r s1 where b: "power_detail e (from_date + MIN_DT) (from_date + ?W) s = (r, s1)"
      by (cases "power_detail e (from_date + MIN_DT) (from_date + ?W) s")
    have m1: "modes s1 = modes s"
      using modes_power_detail [of e "from_date + MIN_DT" "from_date + ?W" s] b by simp
    show ?thesis
    proof (cases r)
      case (Inl x)
      with True b m1 show ?thesis by (simp add: power_loop_step subset_insertI)
    next
      case (Inr res)
      show ?thesis
      proof (cases res)
        case None
        with True b m1 Inr show ?thesis by (simp add: power_loop_step subset_insertI)
      next
        case (Some mu)
        obtain meters unit where mu: "mu = (meters, unit)" by (cases mu)
        show ?thesis
        proof (cases "py_iter meters")
          case (Inl x)
          with True b m1 Inr Some mu show ?thesis by (simp add: power_loop_step subset_insertI)
        next
          case it: (Inr entries)
          obtain r2 s2 where h: "store_meters e unit entries s1 = (r2, s2)"
            by (cases "store_meters e unit entries s1")
          have m2: "modes s2 \<subseteq> insert ASYNCHRONOUS (modes s)"
            using modes_store_meters [of e unit entries s1] h m1 by simp
          show ?thesis
          proof (cases r2)
            case (Some x)
            with True b Inr \<open>res = Some mu\<close> mu it h m2 show ?thesis
              by (simp add: power_loop_step)
          next
            case None
            with True b Inr \<open>res = Some mu\<close> mu it h
            have eq: "power_loop e from_date to_date s = power_loop e (from_date + ?W) to_date s2"
              by (simp add: power_loop_step)
            from "1.IH" [OF True refl b [symmetric] Inr \<open>res = Some mu\<close> mu [symmetric] it
                            h [symmetric] None]
            have "modes (snd (power_loop e (from_date + ?W) to_date s2))
                    \<subseteq> insert ASYNCHRONOUS (modes s2)" .
            with m2 show ?thesis unfolding eq by (rule modes_trans)
          qed
        qed
      qed
    qed
  qed
qed

lemma modes_powerdetail_history:
  "modes (snd (fetch_and_store_powerdetail_history e S E s)) \<subseteq> insert ASYNCHRONOUS (modes s)"
proof (induction e S E s rule: fetch_and_store_powerdetail_history.induct)
  case (1 e from_date to_date s)
  let ?W = "weeks 2"
  let ?loop = fetch_and_store_powerdetail_history
  show ?case
  proof (cases "from_date < to_date")
    case False
    then show ?thesis by (simp add: powerdetail_history_done subset_insertI)
  next
    case True
    obtain r s1 where b: "power_detail e from_date (from_date + ?W) s = (r, s1)"
      by (cases "power_detail e from_date (from_date + ?W) s")
    have m1: "modes s1 = modes s"
      using modes_power_detail [of e from_date "from_date + ?W" s] b by simp
    show ?thesis
    proof (cases r)
      case (Inl x)
      with True b m1 show ?thesis by (simp add: powerdetail_history_step subset_insertI)
    next
      case (Inr res)
      show ?thesis
      proof (cases res)
        case None
        with True b m1 Inr show ?thesis by (simp add: powerdetail_history_step subset_insertI)
      next
        case (Some mu)
        obtain meters unit where mu: "mu = (meters, unit)" by (cases mu)
        show ?thesis
        proof (cases "py_iter meters")
          case (Inl x)
          with True b m1 Inr Some mu show ?thesis
            by (simp add: powerdetail_history_step subset_insertI)
        next
          case it: (Inr entries)
          obtain r2 s2 where h: "history_meters e unit entries s1 = (r2, s2)"
            by (cases "history_meters e unit entries s1")
          have m2: "modes s2 \<subseteq> insert ASYNCHRONOUS (modes s)"
            using modes_history_meters [of e unit entries s1] h m1 by simp
          show ?thesis
          proof (cases r2)
            case (Some x)
            with True b Inr \<open>res = Some mu\<close> mu it h m2 show ?thesis
              by (simp add: powerdetail_history_step)
          next
            case None
            with True b Inr \<open>res = Some mu\<close> mu it h
            have eq: "?loop e from_date to_date s = ?loop e (from_date + ?W) to_date s2"
              by (simp add: powerdetail_history_step)
            from "1.IH" [OF True refl refl b [symmetric] Inr \<open>res = Some mu\<close> mu [symmetric] it
                            h [symmetric] None]
            have "modes (snd (?loop e (from_date + ?W) to_date s2))
                    \<subseteq> insert ASYNCHRONOUS (modes s2)" .
            with m2 show ?thesis unfolding eq by (rule modes_trans)
          qed
        qed
      qed
    qed
  qed
qed

lemma modes_battery_loop: "modes (snd (battery_loop e S E ms s)) = modes s"
proof (induction e S E ms s rule: battery_loop.induct)
  case (1 e from_date to_date measurements s)
  let ?W = MAX_LOOKBACK_BATTERY
  show ?case
  proof (cases "from_date < to_date")
    case False
    then show ?thesis by (simp add: battery_loop_done)
  next
    case True
    obtain r s1 where b: "batteries e (from_date + MIN_DT) (from_date + ?W) s = (r, s1)"
      by (cases "batteries e (from_date + MIN_DT) (from_date + ?W) s")
    have m1: "modes s1 = modes s"
      using modes_batteries [of e "from_date + MIN_DT" "from_date + ?W" s] b by simp
    show ?thesis
    proof (cases r)
      case (Inl x)
      with True b m1 show ?thesis by (simp add: battery_loop_step)
    next
      case (Inr new)
      show ?thesis
      proof (cases "new = JNull")
        case n: True
        from "1.IH"(2) [OF True refl b [symmetric] Inr] n True b Inr m1
        show ?thesis by (simp add: battery_loop_step)
      next
        case n: False
        show ?thesis
        proof (cases "py_iter new")
          case (Inl x)
          with True b Inr n m1 show ?thesis by (simp add: battery_loop_step)
        next
          case it: (Inr xs)
          from "1.IH"(1) [OF True refl b [symmetric] Inr n it] True b Inr n it m1
          show ?thesis by (simp add: battery_loop_step)
        qed
      qed
    qed
  qed
qed

lemma modes_battery_history:
  "modes (snd (fetch_and_store_battery_history e S E ms s)) = modes s"
proof (induction e S E ms s rule: fetch_and_store_battery_history.induct)
  case (1 e from_date to_date measurements s)
  show ?case
  proof (cases "from_date < to_date")
    case False
    then show ?thesis by (simp add: battery_history_done)
  next
    case True
    obtain r s1 where b: "batteries e from_date (from_date + weeks 1) s = (r, s1)"
      by (cases "batteries e from_date (from_date + weeks 1) s")
    have m1: "modes s1 = modes s"
      using modes_batteries [of e from_date "from_date + weeks 1" s] b by simp
    show ?thesis
    proof (cases r)
      case (Inl x)
      with True b m1 show ?thesis by (simp add: battery_history_step)
    next
      case (Inr new)
      show ?thesis
      proof (cases "py_iter new")
        case (Inl x)
        with True b Inr m1 show ?thesis by (simp add: battery_history_step)
      next
        case it: (Inr xs)
        from "1.IH" [OF True refl b [symmetric] Inr it] True b Inr it m1
        show ?thesis by (simp add: battery_history_step)
      qed
    qed
  qed
qed

section \<open>The claims\<close>

text \<open>
  C1, as stated: for a range from \<open>S\<close> to \<open>E\<close> longer than the chunk, the next cursor
  is the minimum of cursor plus chunk and \<open>E\<close>, and the windows requested tile the range
  exactly. The battery loop does not do that: from 2023-08-10 to 2023-08-20 it asks for
  2023-08-10 00:00:01 to 2023-08-17 and for 2023-08-17 00:00:01 to 2023-08-24, four days
  past the end, where the windows of the specification are 2023-08-10 to 2023-08-17 and
  2023-08-17 to 2023-08-20.
\<close>

theorem battery_windows_overshoot:
  "map window (requests (snd (battery_loop env_down (mk_datetime 2023 8 10 0 0 0)
                                (mk_datetime 2023 8 20 0 0 0) [] io0)))
     = [(mk_datetime 2023 8 10 0 0 1, mk_datetime 2023 8 17 0 0 0),
        (mk_datetime 2023 8 17 0 0 1, mk_datetime 2023 8 24 0 0 0)]
   \<and> spec_windows MAX_LOOKBACK_BATTERY (mk_datetime 2023 8 10 0 0 0) (mk_datetime 2023 8 20 0 0 0)
     = [(mk_datetime 2023 8 10 0 0 0, mk_datetime 2023 8 17 0 0 0),
        (mk_datetime 2023 8 17 0 0 0, mk_datetime 2023 8 20 0 0 0)]
   \<and> map window (requests (snd (battery_loop env_down (mk_datetime 2023 8 10 0 0 0)
                                (mk_datetime 2023 8 20 0 0 0) [] io0)))
     \<noteq> spec_windows MAX_LOOKBACK_BATTERY (mk_datetime 2023 8 10 0 0 0) (mk_datetime 2023 8 20 0 0 0)"
  by (simp add: mk_datetime_def days_from_civil_def battery_loop_step battery_loop_done
        batteries_def query_def env_down_def io0_def spec_windows.simps Let_def
        MAX_LOOKBACK_BATTERY_def ONE_WEEK_def weeks_def MIN_DT_def ONE_SEC_def seconds_def
        print_out_def)

text \<open>
  C1, amended: the cursor advances by the whole chunk, without clamping to the end. When
  \<open>E \<le> S\<close> the loop issues no request and returns the empty aggregate. Otherwise a run
  that returns has issued exactly \<open>ceil ((E - S) / chunk)\<close> requests, the \<open>i\<close>-th for
  the window from \<open>S + i * chunk + MIN_DT\<close> to \<open>S + (i + 1) * chunk\<close>; the cursor
  intervals from \<open>S + i * chunk\<close> to \<open>S + (i + 1) * chunk\<close> tile the range from \<open>S\<close>
  to \<open>S + n * chunk\<close> without gap or overlap (every instant lies in exactly one), and
  that range covers the one requested, ending less than one chunk after \<open>E\<close>.
\<close>

theorem battery_windows_cover:
  "(E \<le> S \<longrightarrow> battery_loop e S E [] s = (Inr [], s)) \<and>
   (\<not> isl (fst (battery_loop e S E [] s)) \<longrightarrow>
      requests (snd (battery_loop e S E [] s))
        = requests s @ battery_requests S (n_chunks S E MAX_LOOKBACK_BATTERY)) \<and>
   (S < E \<longrightarrow>
      E \<le> S + int (n_chunks S E MAX_LOOKBACK_BATTERY) * MAX_LOOKBACK_BATTERY \<and>
      S + int (n_chunks S E MAX_LOOKBACK_BATTERY) * MAX_LOOKBACK_BATTERY
        < E + MAX_LOOKBACK_BATTERY) \<and>
   (\<forall>t. S \<le> t \<and> t < S + int (n_chunks S E MAX_LOOKBACK_BATTERY) * MAX_LOOKBACK_BATTERY \<longrightarrow>
      (\<exists>!i. i < n_chunks S E MAX_LOOKBACK_BATTERY \<and>
            S + int i * MAX_LOOKBACK_BATTERY \<le> t \<and>
            t < S + (int i + 1) * MAX_LOOKBACK_BATTERY))"
proof (intro conjI impI allI)
  assume "E \<le> S"
  then show "battery_loop e S E [] s = (Inr [], s)"
    by (simp add: battery_loop_done)
next
  assume ok: "\<not> isl (fst (battery_loop e S E [] s))"
  from battery_loop_requests [of S E e "[]" s] ok
  show "requests (snd (battery_loop e S E [] s))
          = requests s @ battery_requests S (n_chunks S E MAX_LOOKBACK_BATTERY)"
    by auto
next
  assume "S < E"
  then show "E \<le> S + int (n_chunks S E MAX_LOOKBACK_BATTERY) * MAX_LOOKBACK_BATTERY"
    using n_chunks_cover [OF _ MAX_LOOKBACK_BATTERY_pos] by simp
next
  assume "S < E"
  then show "S + int (n_chunks S E MAX_LOOKBACK_BATTERY) * MAX_LOOKBACK_BATTERY
               < E + MAX_LOOKBACK_BATTERY"
    using n_chunks_cover [OF _ MAX_LOOKBACK_BATTERY_pos] by simp
next
  fix t
  assume "S \<le> t \<and> t < S + int (n_chunks S E MAX_LOOKBACK_BATTERY) * MAX_LOOKBACK_BATTERY"
  then show "\<exists>!i. i < n_chunks S E MAX_LOOKBACK_BATTERY \<and>
                  S + int i * MAX_LOOKBACK_BATTERY \<le> t \<and>
                  t < S + (int i + 1) * MAX_LOOKBACK_BATTERY"
    using tile_unique [OF MAX_LOOKBACK_BATTERY_pos] by simp
qed

theorem battery_windows_cover_witness:
  "mk_datetime 2023 8 10 0 0 0 < mk_datetime 2023 8 20 0 0 0 \<and>
   battery_loop env_down (mk_datetime 2023 8 20 0 0 0) (mk_datetime 2023 8 10 0 0 0) [] io0
     = (Inr [], io0) \<and>
   \<not> isl (fst (battery_loop env_down (mk_datetime 2023 8 10 0 0 0)
                  (mk_datetime 2023 8 20 0 0 0) [] io0)) \<and>
   requests (snd (battery_loop env_down (mk_datetime 2023 8 10 0 0 0)
                    (mk_datetime 2023 8 20 0 0 0) [] io0))
     = battery_requests (mk_datetime 2023 8 10 0 0 0) 2 \<and>
   mk_datetime 2023 8 20 0 0 0 \<le> mk_datetime 2023 8 10 0 0 0 + 2 * MAX_LOOKBACK_BATTERY \<and>
   (\<exists>!i. i < (2::nat) \<and>
         mk_datetime 2023 8 10 0 0 0 + int i * MAX_LOOKBACK_BATTERY \<le> mk_datetime 2023 8 18 0 0 0 \<and>
         mk_datetime 2023 8 18 0 0 0 < mk_datetime 2023 8 10 0 0 0 + (int i + 1) * MAX_LOOKBACK_BATTERY)"
proof -
  let ?S = "mk_datetime 2023 8 10 0 0 0" and ?E = "mk_datetime 2023 8 20 0 0 0"
  let ?t = "mk_datetime 2023 8 18 0 0 0"
  note fwd = battery_windows_cover [of ?E ?S env_down io0]
  note bwd = battery_windows_cover [of ?S ?E env_down io0]
  have lt: "?S < ?E" by (simp add: mk_datetime_def days_from_civil_def)
  have n: "n_chunks ?S ?E MAX_LOOKBACK_BATTERY = 2"
    by (simp add: mk_datetime_def days_from_civil_def n_chunks_def MAX_LOOKBACK_BATTERY_def
          ONE_WEEK_def weeks_def)
  have ok: "\<not> isl (fst (battery_loop env_down ?S ?E [] io0))"
    by (simp add: battery_loop_no_data env_down_batteries)
  have t: "?S \<le> ?t \<and> ?t < ?S + int 2 * MAX_LOOKBACK_BATTERY"
    by (simp add: mk_datetime_def days_from_civil_def MAX_LOOKBACK_BATTERY_def
          ONE_WEEK_def weeks_def)
  have 1: "battery_loop env_down ?E ?S [] io0 = (Inr [], io0)"
    using bwd lt by simp
  have 2: "requests (snd (battery_loop env_down ?S ?E [] io0)) = battery_requests ?S 2"
    using fwd ok n by (simp add: io0_def)
  have 3: "?E \<le> ?S + 2 * MAX_LOOKBACK_BATTERY"
    using fwd lt n by simp
  have 4: "\<exists>!i. i < (2::nat) \<and> ?S + int i * MAX_LOOKBACK_BATTERY \<le> ?t \<and>
                ?t < ?S + (int i + 1) * MAX_LOOKBACK_BATTERY"
    using fwd t unfolding n by blast
  show ?thesis using lt ok 1 2 3 4 by blast
qed

text \<open>
  C10 at its failing input: the power-detail loop of \<^verbatim>\<open>fetch-history.py\<close> from
  2023-08-10 to 2023-09-01, two windows of two weeks, with a provider that returns no
  data. Unpacking \<^verbatim>\<open>None\<close> raises \<^verbatim>\<open>TypeError\<close> at line 98, before line 99 advances
  the cursor: the run ends after the request for the first window, and the second window
  is never requested. The battery loop of \<^verbatim>\<open>fetch-latest.py\<close>, with the same provider
  and two windows of one week, advances the cursor after each failed fetch and requests
  both.
\<close>

theorem failed_fetch_does_not_advance:
  "n_chunks (mk_datetime 2023 8 10 0 0 0) (mk_datetime 2023 9 1 0 0 0) (weeks 2) = 2 \<and>
   fetch_and_store_powerdetail_history env_down (mk_datetime 2023 8 10 0 0 0)
       (mk_datetime 2023 9 1 0 0 0) io0
     = (Some TypeError,
        io0\<lparr>stdout := [Query_line (PowerDetails (mk_datetime 2023 8 10 0 0 0)
                                                (mk_datetime 2023 8 24 0 0 0)),
                       HTTP_error_line 500 ''Internal Server Error''],
            requests := [PowerDetails (mk_datetime 2023 8 10 0 0 0)
                                      (mk_datetime 2023 8 24 0 0 0)]\<rparr>) \<and>
   n_chunks (mk_datetime 2023 8 10 0 0 0) (mk_datetime 2023 8 20 0 0 0) MAX_LOOKBACK_BATTERY = 2 \<and>
   battery_loop env_down (mk_datetime 2023 8 10 0 0 0) (mk_datetime 2023 8 20 0 0 0) [] io0
     = (Inr [],
        io0\<lparr>stdout :=
               [Query_line (StorageData (mk_datetime 2023 8 10 0 0 1) (mk_datetime 2023 8 17 0 0 0)),
                HTTP_error_line 500 ''Internal Server Error'',
                Query_line (StorageData (mk_datetime 2023 8 17 0 0 1) (mk_datetime 2023 8 24 0 0 0)),
                HTTP_error_line 500 ''Internal Server Error''],
            requests :=
               [StorageData (mk_datetime 2023 8 10 0 0 1) (mk_datetime 2023 8 17 0 0 0),
                StorageData (mk_datetime 2023 8 17 0 0 1) (mk_datetime 2023 8 24 0 0 0)]\<rparr>)"
proof -
  have 1: "n_chunks (mk_datetime 2023 8 10 0 0 0) (mk_datetime 2023 9 1 0 0 0) (weeks 2) = 2"
    by (simp add: n_chunks_def mk_datetime_def days_from_civil_def weeks_def)
  have 2: "fetch_and_store_powerdetail_history env_down (mk_datetime 2023 8 10 0 0 0)
       (mk_datetime 2023 9 1 0 0 0) io0
     = (Some TypeError,
        io0\<lparr>stdout := [Query_line (PowerDetails (mk_datetime 2023 8 10 0 0 0)
                                                (mk_datetime 2023 8 24 0 0 0)),
                       HTTP_error_line 500 ''Internal Server Error''],
            requests := [PowerDetails (mk_datetime 2023 8 10 0 0 0)
                                      (mk_datetime 2023 8 24 0 0 0)]\<rparr>)"
    by (simp add: mk_datetime_def days_from_civil_def powerdetail_history_step
          power_detail_def query_def env_down_def io0_def Let_def weeks_def print_out_def)
  have 3: "n_chunks (mk_datetime 2023 8 10 0 0 0) (mk_datetime 2023 8 20 0 0 0)
             MAX_LOOKBACK_BATTERY = 2"
    by (simp add: n_chunks_def mk_datetime_def days_from_civil_def MAX_LOOKBACK_BATTERY_def
          ONE_WEEK_def weeks_def)
  have 4: "battery_loop env_down (mk_datetime 2023 8 10 0 0 0) (mk_datetime 2023 8 20 0 0 0) [] io0
     = (Inr [],
        io0\<lparr>stdout :=
               [Query_line (StorageData (mk_datetime 2023 8 10 0 0 1) (mk_datetime 2023 8 17 0 0 0)),
                HTTP_error_line 500 ''Internal Server Error'',
                Query_line (StorageData (mk_datetime 2023 8 17 0 0 1) (mk_datetime 2023 8 24 0 0 0)),
                HTTP_error_line 500 ''Internal Server Error''],
            requests :=
               [StorageData (mk_datetime 2023 8 10 0 0 1) (mk_datetime 2023 8 17 0 0 0),
                StorageData (mk_datetime 2023 8 17 0 0 1) (mk_datetime 2023 8 24 0 0 0)]\<rparr>)"
    by (simp add: mk_datetime_def days_from_civil_def battery_loop_step battery_loop_done
          batteries_def query_def env_down_def io0_def Let_def
          MAX_LOOKBACK_BATTERY_def ONE_WEEK_def weeks_def MIN_DT_def ONE_SEC_def seconds_def
          print_out_def)
  show ?thesis using 1 2 3 4 by simp
qed

text \<open>
  C6: the resolver returns the minimum of the far-future timestamp (2199-12-31, read on the
  local clock) and all record times returned; over a result without records it returns the
  far-future timestamp itself; and when records are returned, none later than the
  far-future timestamp, it returns the minimum of their times.
\<close>

theorem last_stored_minimum:
  "last_stored e q = Min (insert (far_future e) (set (concat (query_api e q)))) \<and>
   far_future e = local_instant e (mk_datetime 2199 12 31 0 0 0) \<and>
   (concat (query_api e q) = [] \<longrightarrow> last_stored e q = far_future e) \<and>
   (concat (query_api e q) \<noteq> [] \<and> (\<forall>t\<in>set (concat (query_api e q)). t \<le> far_future e) \<longrightarrow>
      last_stored e q = Min (set (concat (query_api e q))))"
proof (intro conjI impI)
  show m: "last_stored e q = Min (insert (far_future e) (set (concat (query_api e q))))"
    by (simp add: last_stored_fold fold_min_Min)
  show "far_future e = local_instant e (mk_datetime 2199 12 31 0 0 0)"
    by (simp add: far_future_def)
  show "last_stored e q = far_future e" if none: "concat (query_api e q) = []"
    unfolding last_stored_fold none by simp
  show "last_stored e q = Min (set (concat (query_api e q)))"
    if "concat (query_api e q) \<noteq> [] \<and> (\<forall>t\<in>set (concat (query_api e q)). t \<le> far_future e)"
    unfolding last_stored_fold using fold_min_below [of "concat (query_api e q)"] that
    by blast
qed

theorem last_stored_minimum_witness:
  "concat (query_api env_down Last_any) = [] \<and>
   last_stored env_down Last_any = mk_datetime 2199 12 31 0 0 0 \<and>
   concat (query_api env_two_series Last_production_consumption) \<noteq> [] \<and>
   mk_datetime 2023 8 19 12 0 0 \<le> far_future env_two_series \<and>
   mk_datetime 2023 8 19 11 45 0 \<le> far_future env_two_series \<and>
   last_stored env_two_series Last_production_consumption = mk_datetime 2023 8 19 11 45 0"
proof -
  note A = last_stored_minimum [of env_down Last_any]
  note B = last_stored_minimum [of env_two_series Last_production_consumption]
  have a: "concat (query_api env_down Last_any) = []"
    by (simp add: env_down_def)
  have ff: "far_future env_down = mk_datetime 2199 12 31 0 0 0"
    using A by (simp add: env_down_def)
  have c: "concat (query_api env_two_series Last_production_consumption)
             = [mk_datetime 2023 8 19 12 0 0, mk_datetime 2023 8 19 11 45 0]"
    by (simp add: env_two_series_def)
  have f2: "far_future env_two_series = mk_datetime 2199 12 31 0 0 0"
    by (simp add: far_future_def env_two_series_def env_down_def)
  have le: "mk_datetime 2023 8 19 12 0 0 \<le> mk_datetime 2199 12 31 0 0 0"
           "mk_datetime 2023 8 19 11 45 0 \<le> mk_datetime 2199 12 31 0 0 0"
           "mk_datetime 2023 8 19 11 45 0 \<le> mk_datetime 2023 8 19 12 0 0"
    by (simp_all add: mk_datetime_def days_from_civil_def)
  have 1: "last_stored env_down Last_any = mk_datetime 2199 12 31 0 0 0"
    using A a ff by simp
  have "last_stored env_two_series Last_production_consumption
          = Min (set [mk_datetime 2023 8 19 12 0 0, mk_datetime 2023 8 19 11 45 0])"
    using B le unfolding c f2 by simp
  then have 2: "last_stored env_two_series Last_production_consumption
          = mk_datetime 2023 8 19 11 45 0"
    using le by (simp add: min_def)
  show ?thesis using a 1 2 c f2 le by simp
qed

text \<open>
  C7, as stated: on a fresh sink the poll cycle replaces the far-future timestamp with the
  installation date and fetches from there. It does not: with an empty sink on 2023-08-20
  and the installation date 2023-08-10, the resolver yields the far-future timestamp, the
  start of the specification is 2023-08-10, a loop started there requests the window from
  2023-08-10 00:00:01, and the poll cycle requests nothing.
\<close>

theorem fresh_sink_not_backfilled:
  "last_stored env_down Last_production_consumption = far_future env_down \<and>
   spec_from_date env_down Last_production_consumption = Some (mk_datetime 2023 8 10 0 0 0) \<and>
   requests (snd (power_loop env_down (mk_datetime 2023 8 10 0 0 0) (now env_down) io0))
     = [PowerDetails (mk_datetime 2023 8 10 0 0 1) (mk_datetime 2023 9 7 0 0 0)] \<and>
   fetch_and_store_latest_power_details env_down io0 = (None, io0)"
  by (simp add: spec_from_date_def last_stored_def far_future_def env_down_def
        sample_strptime_date_def fetch_and_store_latest_power_details_def
        power_loop_step power_loop_done power_detail_def query_def io0_def print_out_def
        mk_datetime_def days_from_civil_def MAX_LOOKBACK_POWERDETAILS_def weeks_def
        MIN_DT_def ONE_SEC_def seconds_def Let_def)

text \<open>
  C7, amended: when the resolver yields the far-future timestamp (the sink returns no
  record) the poll cycle uses it unchanged as the cursor of its loops; as long as the
  current time is not past it, no request is issued, nothing is printed and nothing, so
  not the far-future timestamp either, is written: the cycle leaves the state as it was.
  The installation date is the start of the fetch window only in
  \<^verbatim>\<open>get_complete_powerdetail_history\<close>, which does not consult the resolver: when the
  date parses and lies before the current time, its first request is for the two weeks
  from the installation date.
\<close>

theorem fresh_sink_cycle:
  "(concat (query_api e Last_any) = [] \<and>
    concat (query_api e Last_production_consumption) = [] \<and>
    now e \<le> far_future e \<longrightarrow>
      fetch_and_store_latest_battery_data e s = (None, s) \<and>
      fetch_and_store_latest_power_details e s = (None, s) \<and>
      bgfun e s = (None, s)) \<and>
   (strptime_date e (INSTALLATION_DATE e) = Some d \<and> local_instant e d < now e \<longrightarrow>
      (\<exists>rest. requests (snd (get_complete_powerdetail_history e s))
                = requests s @ PowerDetails (local_instant e d) (local_instant e d + weeks 2) # rest))"
proof (intro conjI impI)
  assume a: "concat (query_api e Last_any) = [] \<and>
    concat (query_api e Last_production_consumption) = [] \<and> now e \<le> far_future e"
  have b: "last_stored e Last_any = far_future e"
    using a by (intro last_stored_empty) blast
  have p: "last_stored e Last_production_consumption = far_future e"
    using a by (intro last_stored_empty) blast
  show 1: "fetch_and_store_latest_battery_data e s = (None, s)"
    using a by (simp add: fetch_and_store_latest_battery_data_def b battery_loop_done)
  show 2: "fetch_and_store_latest_power_details e s = (None, s)"
    using a by (simp add: fetch_and_store_latest_power_details_def p power_loop_done)
  show "bgfun e s = (None, s)"
    by (simp add: bgfun_def 1 2)
next
  assume a: "strptime_date e (INSTALLATION_DATE e) = Some d \<and> local_instant e d < now e"
  let ?S = "local_instant e d"
  from powerdetail_history_requests [of ?S "now e" e s] a
  obtain k where k: "0 < k"
    "requests (snd (fetch_and_store_powerdetail_history e ?S (now e) s))
       = requests s @ powerdetail_history_requests ?S k"
    by auto
  then obtain k' where "k = Suc k'" by (cases k) simp_all
  with k a show "\<exists>rest. requests (snd (get_complete_powerdetail_history e s))
                = requests s @ PowerDetails ?S (?S + weeks 2) # rest"
    by (simp add: get_complete_powerdetail_history_def powerdetail_history_requests_Suc)
qed

theorem fresh_sink_cycle_witness:
  "concat (query_api env_down Last_any) = [] \<and>
   concat (query_api env_down Last_production_consumption) = [] \<and>
   now env_down \<le> far_future env_down \<and>
   bgfun env_down io0 = (None, io0) \<and>
   strptime_date env_down (INSTALLATION_DATE env_down) = Some (mk_datetime 2023 8 10 0 0 0) \<and>
   local_instant env_down (mk_datetime 2023 8 10 0 0 0) < now env_down \<and>
   (\<exists>rest. requests (snd (get_complete_powerdetail_history env_down io0))
            = PowerDetails (mk_datetime 2023 8 10 0 0 0) (mk_datetime 2023 8 10 0 0 0 + weeks 2) # rest)"
proof -
  note T = fresh_sink_cycle [where e = env_down and d = "mk_datetime 2023 8 10 0 0 0" and s = io0]
  have h1: "concat (query_api env_down Last_any) = []"
           "concat (query_api env_down Last_production_consumption) = []"
    by (simp_all add: env_down_def)
  have h2: "now env_down \<le> far_future env_down"
    by (simp add: far_future_def env_down_def mk_datetime_def days_from_civil_def)
  have h3: "strptime_date env_down (INSTALLATION_DATE env_down) = Some (mk_datetime 2023 8 10 0 0 0)"
    by (simp add: env_down_def sample_strptime_date_def)
  have h4: "local_instant env_down (mk_datetime 2023 8 10 0 0 0) < now env_down"
    by (simp add: env_down_def mk_datetime_def days_from_civil_def)
  have li: "local_instant env_down (mk_datetime 2023 8 10 0 0 0) = mk_datetime 2023 8 10 0 0 0"
    by (simp add: env_down_def)
  have c1: "bgfun env_down io0 = (None, io0)"
    using T h1 h2 by blast
  have c2: "\<exists>rest. requests (snd (get_complete_powerdetail_history env_down io0))
            = requests io0 @ PowerDetails (local_instant env_down (mk_datetime 2023 8 10 0 0 0))
                (local_instant env_down (mk_datetime 2023 8 10 0 0 0) + weeks 2) # rest"
    using T h3 h4 by blast
  then have c3: "\<exists>rest. requests (snd (get_complete_powerdetail_history env_down io0))
            = PowerDetails (mk_datetime 2023 8 10 0 0 0) (mk_datetime 2023 8 10 0 0 0 + weeks 2) # rest"
    unfolding li by (simp add: io0_def)
  show ?thesis using h1 h2 h3 h4 c1 c3 by blast
qed

text \<open>
  C5: with the unit \<open>W\<close>, and \<^verbatim>\<open>strptime\<close> reading the date as 2024-01-01T00:00:00, the
  entry of the example adds exactly one point to the writes, with measurement
  \<open>Production\<close>, tag \<open>unit = W\<close>, field \<open>power = 1500\<close> and that timestamp (and prints one
  line); a sample without the key \<open>value\<close> is passed over, the state unchanged; and an
  entry whose only sample has no \<open>value\<close> leaves the state unchanged: no point.
\<close>

theorem production_entry_one_point:
  "(strptime e ''2024-01-01 00:00:00'' = Some (mk_datetime 2024 1 1 0 0 0) \<longrightarrow>
      store_meters e (JStr ''W'')
        [JObj [(''type'', JStr ''Production''),
               (''values'', JArr [JObj [(''date'', JStr ''2024-01-01 00:00:00''),
                                        (''value'', JNum 1500)]])]] s
      = (None,
         s\<lparr>stdout := stdout s @ [Power_line (mk_datetime 2024 1 1 0 0 0) (JNum 1500) (JStr ''W'')
                                    (JStr ''Production'')],
           written := written s @
             [(ASYNCHRONOUS,
               \<lparr>measurement = JStr ''Production'',
                tags = [(''unit'', Tag (JStr ''W''))],
                time = mk_datetime 2024 1 1 0 0 0,
                field_values = [(''power'', JNum 1500)]\<rparr>)]\<rparr>)) \<and>
   (''value'' \<notin> set (map fst kvs) \<longrightarrow>
      store_values e power_type unit (JObj kvs # rest) s = store_values e power_type unit rest s) \<and>
   (''value'' \<notin> set (map fst kvs) \<longrightarrow>
      store_meters e unit [JObj [(''type'', power_type), (''values'', JArr [JObj kvs])]] s
        = (None, s))"
  by (simp add: Let_def write_point_def print_out_def)

theorem production_entry_one_point_witness:
  "strptime env_down ''2024-01-01 00:00:00'' = Some (mk_datetime 2024 1 1 0 0 0) \<and>
   written (snd (store_meters env_down (JStr ''W'') [production_entry] io0))
     = [(ASYNCHRONOUS,
         \<lparr>measurement = JStr ''Production'',
          tags = [(''unit'', Tag (JStr ''W''))],
          time = mk_datetime 2024 1 1 0 0 0,
          field_values = [(''power'', JNum 1500)]\<rparr>)] \<and>
   ''value'' \<notin> set (map fst [(''date'', JStr ''2024-01-01 00:00:00'')]) \<and>
   store_meters env_down (JStr ''W'')
     [JObj [(''type'', JStr ''Production''),
            (''values'', JArr [JObj [(''date'', JStr ''2024-01-01 00:00:00'')]])]] io0
     = (None, io0)"
proof -
  note T = production_entry_one_point
             [where e = env_down and s = io0 and unit = "JStr ''W''"
                and power_type = "JStr ''Production''"
                and kvs = "[(''date'', JStr ''2024-01-01 00:00:00'')]"]
  have h1: "strptime env_down ''2024-01-01 00:00:00'' = Some (mk_datetime 2024 1 1 0 0 0)"
    by (simp add: env_down_def sample_strptime_def)
  have h2: "''value'' \<notin> set (map fst [(''date'', JStr ''2024-01-01 00:00:00'')])"
    by simp
  have c1: "written (snd (store_meters env_down (JStr ''W'') [production_entry] io0))
     = [(ASYNCHRONOUS,
         \<lparr>measurement = JStr ''Production'',
          tags = [(''unit'', Tag (JStr ''W''))],
          time = mk_datetime 2024 1 1 0 0 0,
          field_values = [(''power'', JNum 1500)]\<rparr>)]"
    using T h1 unfolding production_entry_def by (simp add: io0_def)
  have c2: "store_meters env_down (JStr ''W'')
     [JObj [(''type'', JStr ''Production''),
            (''values'', JArr [JObj [(''date'', JStr ''2024-01-01 00:00:00'')]])]] io0
     = (None, io0)"
    using T h2 by blast
  show ?thesis using h1 h2 c1 c2 by blast
qed

text \<open>
  C8: a battery record without \<open>modelNumber\<close>, or with it and without \<open>serialNumber\<close>,
  whatever its telemetries, adds one line to the diagnostics and nothing else (no point is
  written), and the records after it are processed from there.
\<close>

theorem battery_without_identity_skipped:
  "(''modelNumber'' \<notin> set (map fst kvs) \<longrightarrow>
      store_batteries e (JObj kvs # rest) s
        = store_batteries e rest (s\<lparr>stderr := stderr s @ [No_modelNumber]\<rparr>)) \<and>
   (''modelNumber'' \<in> set (map fst kvs) \<and> ''serialNumber'' \<notin> set (map fst kvs) \<longrightarrow>
      store_batteries e (JObj kvs # rest) s
        = store_batteries e rest (s\<lparr>stderr := stderr s @ [No_serialNumber]\<rparr>))"
  by (simp add: print_err_def)

theorem battery_without_identity_skipped_witness:
  "store_batteries env_down [battery_without_serial, battery_record] io0
     = (None,
        io0\<lparr>stdout := [Battery_line (mk_datetime 2023 8 19 12 0 0) (JNum 250) (JNum 80)],
            stderr := [No_serialNumber],
            written := [(SYNCHRONOUS, battery_point)]\<rparr>) \<and>
   store_batteries env_down [battery_without_model, battery_record] io0
     = (None,
        io0\<lparr>stdout := [Battery_line (mk_datetime 2023 8 19 12 0 0) (JNum 250) (JNum 80)],
            stderr := [No_modelNumber],
            written := [(SYNCHRONOUS, battery_point)]\<rparr>)"
proof -
  note A = battery_without_identity_skipped
             [where e = env_down and s = io0 and rest = "[battery_record]"
                and kvs = "[(''modelNumber'', JStr ''RESU10''),
                            (''telemetries'', JArr [telemetry_noon])]"]
  note B = battery_without_identity_skipped
             [where e = env_down and s = io0 and rest = "[battery_record]"
                and kvs = "[(''serialNumber'', JStr ''SN1''),
                            (''telemetries'', JArr [telemetry_noon])]"]
  have sib: "store_batteries env_down [battery_record] (io0\<lparr>stderr := stderr io0 @ [d]\<rparr>)
     = (None,
        io0\<lparr>stdout := [Battery_line (mk_datetime 2023 8 19 12 0 0) (JNum 250) (JNum 80)],
            stderr := [d],
            written := [(SYNCHRONOUS, battery_point)]\<rparr>)" for d
    by (simp add: battery_record_def telemetry_noon_def battery_point_def env_down_def
          sample_strptime_def io0_def write_point_def print_out_def Let_def)
  have 1: "store_batteries env_down [battery_without_serial, battery_record] io0
     = store_batteries env_down [battery_record] (io0\<lparr>stderr := stderr io0 @ [No_serialNumber]\<rparr>)"
    unfolding battery_without_serial_def using A by simp
  have 2: "store_batteries env_down [battery_without_model, battery_record] io0
     = store_batteries env_down [battery_record] (io0\<lparr>stderr := stderr io0 @ [No_modelNumber]\<rparr>)"
    unfolding battery_without_model_def using B by simp
  show ?thesis unfolding 1 2 sib by simp
qed

text \<open>
  C2 at its failing inputs: a battery record that has both identity fields and no
  \<open>telemetries\<close> makes \<^verbatim>\<open>entry["telemetries"]\<close> raise \<^verbatim>\<open>KeyError\<close>, and a sample that
  has a \<open>value\<close> and no \<open>date\<close> makes \<^verbatim>\<open>measurement["date"]\<close> raise \<^verbatim>\<open>KeyError\<close>;
  the well-formed entry that follows is not processed, and nothing is printed.
\<close>

theorem normalizer_raises_KeyError:
  "store_batteries env_down [battery_without_telemetries, battery_record] io0
     = (Some (KeyError ''telemetries''), io0) \<and>
   store_meters env_down (JStr ''W'') [entry_without_date, production_entry] io0
     = (Some (KeyError ''date''), io0)"
  by (simp add: battery_without_telemetries_def entry_without_date_def)

text \<open>
  C3 at its failing input: a body that is not JSON. The handler of \<^verbatim>\<open>JSONDecodeError\<close>
  in \<^verbatim>\<open>query\<close> reads \<^verbatim>\<open>e.code\<close>, which that exception does not have, and
  \<^verbatim>\<open>AttributeError\<close> leaves \<^verbatim>\<open>query\<close>, \<^verbatim>\<open>batteries\<close> and \<^verbatim>\<open>power_detail\<close>.
\<close>

theorem invalid_json_raises_AttributeError:
  "query env_garbled (StorageData (mk_datetime 2023 8 10 0 0 1) (mk_datetime 2023 8 17 0 0 0)) io0
     = (Inl (AttributeError ''code''),
        io0\<lparr>stdout := [Query_line (StorageData (mk_datetime 2023 8 10 0 0 1)
                                               (mk_datetime 2023 8 17 0 0 0))],
            requests := [StorageData (mk_datetime 2023 8 10 0 0 1)
                                     (mk_datetime 2023 8 17 0 0 0)]\<rparr>) \<and>
   fst (batteries env_garbled (mk_datetime 2023 8 10 0 0 1) (mk_datetime 2023 8 17 0 0 0) io0)
     = Inl (AttributeError ''code'') \<and>
   fst (power_detail env_garbled (mk_datetime 2023 8 10 0 0 1) (mk_datetime 2023 9 7 0 0 0) io0)
     = Inl (AttributeError ''code'')"
  by (simp add: query_def batteries_def power_detail_def env_garbled_def env_down_def
        io0_def print_out_def)

text \<open>
  C4 at its failing inputs: the provider answers status 500, so the client returns
  \<^verbatim>\<open>None\<close>. The poll of the power details, 41 days behind and so two windows away from
  the current time, raises \<^verbatim>\<open>TypeError\<close> on unpacking \<^verbatim>\<open>None\<close> after the first
  request; the battery history, two windows long, raises \<^verbatim>\<open>TypeError\<close> on
  \<^verbatim>\<open>measurements += None\<close> after the first request. The second window is not requested.
  (The query of the poll looks back two weeks, so a sink cannot return a record 41 days
  old.) With the last records of the day before, the poll has one window, raises
  \<^verbatim>\<open>TypeError\<close> at it, and the exception ends the cycle \<^verbatim>\<open>bgfun\<close>.
\<close>

theorem no_data_ends_the_cycle:
  "n_chunks (last_stored env_lagging Last_production_consumption) (now env_lagging)
     MAX_LOOKBACK_POWERDETAILS = 2 \<and>
   fetch_and_store_latest_power_details env_lagging io0
     = (Some TypeError,
        io0\<lparr>stdout := [Query_line (PowerDetails (mk_datetime 2023 7 10 0 0 1)
                                                (mk_datetime 2023 8 7 0 0 0)),
                       HTTP_error_line 500 ''Internal Server Error''],
            requests := [PowerDetails (mk_datetime 2023 7 10 0 0 1)
                                      (mk_datetime 2023 8 7 0 0 0)]\<rparr>) \<and>
   n_chunks (mk_datetime 2023 8 10 0 0 0) (mk_datetime 2023 8 20 0 0 0) (weeks 1) = 2 \<and>
   fetch_and_store_battery_history env_down (mk_datetime 2023 8 10 0 0 0)
       (mk_datetime 2023 8 20 0 0 0) [] io0
     = (Inl TypeError,
        io0\<lparr>stdout := [Query_line (StorageData (mk_datetime 2023 8 10 0 0 0)
                                               (mk_datetime 2023 8 17 0 0 0)),
                       HTTP_error_line 500 ''Internal Server Error''],
            requests := [StorageData (mk_datetime 2023 8 10 0 0 0)
                                     (mk_datetime 2023 8 17 0 0 0)]\<rparr>) \<and>
   fetch_and_store_latest_power_details env_two_series io0
     = (Some TypeError,
        io0\<lparr>stdout := [Query_line (PowerDetails (mk_datetime 2023 8 19 11 45 1)
                                                (mk_datetime 2023 9 16 11 45 0)),
                       HTTP_error_line 500 ''Internal Server Error''],
            requests := [PowerDetails (mk_datetime 2023 8 19 11 45 1)
                                      (mk_datetime 2023 9 16 11 45 0)]\<rparr>) \<and>
   fst (bgfun env_two_series io0) = Some TypeError"
proof -
  have ls: "last_stored env_lagging Last_production_consumption = mk_datetime 2023 7 10 0 0 0"
    by (simp add: last_stored_def lower_to_def far_future_def env_lagging_def env_down_def
          mk_datetime_def days_from_civil_def)
  have 1: "n_chunks (mk_datetime 2023 7 10 0 0 0) (now env_lagging) MAX_LOOKBACK_POWERDETAILS = 2"
    by (simp add: n_chunks_def env_lagging_def env_down_def mk_datetime_def days_from_civil_def
          MAX_LOOKBACK_POWERDETAILS_def weeks_def)
  have 2: "power_loop env_lagging (mk_datetime 2023 7 10 0 0 0) (now env_lagging) io0
     = (Some TypeError,
        io0\<lparr>stdout := [Query_line (PowerDetails (mk_datetime 2023 7 10 0 0 1)
                                                (mk_datetime 2023 8 7 0 0 0)),
                       HTTP_error_line 500 ''Internal Server Error''],
            requests := [PowerDetails (mk_datetime 2023 7 10 0 0 1)
                                      (mk_datetime 2023 8 7 0 0 0)]\<rparr>)"
    by (simp add: power_loop_step power_detail_def query_def env_lagging_def env_down_def
          io0_def print_out_def mk_datetime_def days_from_civil_def
          MAX_LOOKBACK_POWERDETAILS_def weeks_def MIN_DT_def ONE_SEC_def seconds_def)
  have 3: "n_chunks (mk_datetime 2023 8 10 0 0 0) (mk_datetime 2023 8 20 0 0 0) (weeks 1) = 2"
    by (simp add: n_chunks_def mk_datetime_def days_from_civil_def weeks_def)
  have 4: "fetch_and_store_battery_history env_down (mk_datetime 2023 8 10 0 0 0)
       (mk_datetime 2023 8 20 0 0 0) [] io0
     = (Inl TypeError,
        io0\<lparr>stdout := [Query_line (StorageData (mk_datetime 2023 8 10 0 0 0)
                                               (mk_datetime 2023 8 17 0 0 0)),
                       HTTP_error_line 500 ''Internal Server Error''],
            requests := [StorageData (mk_datetime 2023 8 10 0 0 0)
                                     (mk_datetime 2023 8 17 0 0 0)]\<rparr>)"
    by (subst fetch_and_store_battery_history.simps)
       (simp add: batteries_def query_def env_down_def io0_def print_out_def
          mk_datetime_def days_from_civil_def weeks_def Let_def)
  have l2: "last_stored env_two_series q = mk_datetime 2023 8 19 11 45 0" for q
    by (simp add: last_stored_def lower_to_def far_future_def env_two_series_def env_down_def
          mk_datetime_def days_from_civil_def)
  have 5: "power_loop env_two_series (mk_datetime 2023 8 19 11 45 0) (now env_two_series) s
     = (Some TypeError,
        s\<lparr>stdout := stdout s @
                       [Query_line (PowerDetails (mk_datetime 2023 8 19 11 45 1)
                                                 (mk_datetime 2023 9 16 11 45 0)),
                        HTTP_error_line 500 ''Internal Server Error''],
          requests := requests s @
                       [PowerDetails (mk_datetime 2023 8 19 11 45 1)
                                     (mk_datetime 2023 9 16 11 45 0)]\<rparr>)" for s
    by (simp add: power_loop_step power_detail_def query_def env_two_series_def env_down_def
          print_out_def mk_datetime_def days_from_civil_def
          MAX_LOOKBACK_POWERDETAILS_def weeks_def MIN_DT_def ONE_SEC_def seconds_def)
  have 6: "fetch_and_store_latest_power_details env_two_series s
     = (Some TypeError,
        s\<lparr>stdout := stdout s @
                       [Query_line (PowerDetails (mk_datetime 2023 8 19 11 45 1)
                                                 (mk_datetime 2023 9 16 11 45 0)),
                        HTTP_error_line 500 ''Internal Server Error''],
          requests := requests s @
                       [PowerDetails (mk_datetime 2023 8 19 11 45 1)
                                     (mk_datetime 2023 9 16 11 45 0)]\<rparr>)" for s
    unfolding fetch_and_store_latest_power_details_def Let_def l2 by (rule 5)
  have 7: "fst (fetch_and_store_latest_battery_data env_two_series io0) = None"
  proof -
    have "fst (battery_loop env_two_series (mk_datetime 2023 8 19 11 45 0)
                 (now env_two_series) [] io0) = Inr []"
      by (simp add: battery_loop_step battery_loop_done batteries_def query_def
            env_two_series_def env_down_def mk_datetime_def days_from_civil_def
            MAX_LOOKBACK_BATTERY_def ONE_WEEK_def weeks_def MIN_DT_def ONE_SEC_def seconds_def)
    then obtain s1 where
      "battery_loop env_two_series (mk_datetime 2023 8 19 11 45 0) (now env_two_series) [] io0
         = (Inr [], s1)"
      by (cases "battery_loop env_two_series (mk_datetime 2023 8 19 11 45 0)
                   (now env_two_series) [] io0") simp
    then show ?thesis
      unfolding fetch_and_store_latest_battery_data_def Let_def l2 by simp
  qed
  have 8: "fst (bgfun env_two_series io0) = Some TypeError"
  proof -
    from 7 obtain s1 where "fetch_and_store_latest_battery_data env_two_series io0 = (None, s1)"
      by (cases "fetch_and_store_latest_battery_data env_two_series io0") simp
    then show ?thesis unfolding bgfun_def by (simp add: 6)
  qed
  have 9: "fetch_and_store_latest_power_details env_lagging io0
     = (Some TypeError,
        io0\<lparr>stdout := [Query_line (PowerDetails (mk_datetime 2023 7 10 0 0 1)
                                                (mk_datetime 2023 8 7 0 0 0)),
                       HTTP_error_line 500 ''Internal Server Error''],
            requests := [PowerDetails (mk_datetime 2023 7 10 0 0 1)
                                      (mk_datetime 2023 8 7 0 0 0)]\<rparr>)"
    unfolding fetch_and_store_latest_power_details_def Let_def ls by (rule 2)
  have 10: "fetch_and_store_latest_power_details env_two_series io0
     = (Some TypeError,
        io0\<lparr>stdout := [Query_line (PowerDetails (mk_datetime 2023 8 19 11 45 1)
                                                (mk_datetime 2023 9 16 11 45 0)),
                       HTTP_error_line 500 ''Internal Server Error''],
            requests := [PowerDetails (mk_datetime 2023 8 19 11 45 1)
                                      (mk_datetime 2023 9 16 11 45 0)]\<rparr>)"
    unfolding 6 by (simp add: io0_def)
  show ?thesis
    unfolding ls using 1 3 4 8 9 10 by simp
qed

text \<open>
  C9, as stated: the writes of steady polling are asynchronous and the writes of the
  full-history backfill are synchronous. Against a provider with data, the battery poll
  writes its point in the synchronous mode, and both full-history paths write theirs in the
  asynchronous mode.
\<close>

theorem dispatch_modes_reversed:
  "map fst (written (snd (fetch_and_store_latest_battery_data env_site io0))) = [SYNCHRONOUS] \<and>
   map fst (written (snd (get_complete_battery_history env_site (mk_datetime 2023 8 15 0 0 0) io0)))
     = [ASYNCHRONOUS] \<and>
   map fst (written (snd (get_complete_powerdetail_history env_site io0))) = [ASYNCHRONOUS]"
proof -
  have ls: "last_stored env_site Last_any = mk_datetime 2023 8 19 12 0 0"
    by (simp add: last_stored_def lower_to_def far_future_def env_site_def env_down_def
          mk_datetime_def days_from_civil_def)
  have 1: "battery_loop env_site (mk_datetime 2023 8 19 12 0 0) (now env_site) [] io0
             = (Inr [battery_record],
                io0\<lparr>stdout := [Query_line (StorageData (mk_datetime 2023 8 19 12 0 1)
                                                       (mk_datetime 2023 8 26 12 0 0))],
                    requests := [StorageData (mk_datetime 2023 8 19 12 0 1)
                                             (mk_datetime 2023 8 26 12 0 0)]\<rparr>)"
    by (simp add: battery_loop_step battery_loop_done batteries_def query_def env_site_def
          env_down_def io0_def print_out_def mk_datetime_def days_from_civil_def
          MAX_LOOKBACK_BATTERY_def ONE_WEEK_def weeks_def MIN_DT_def ONE_SEC_def seconds_def)
  have a: "map fst (written (snd (fetch_and_store_latest_battery_data env_site io0)))
             = [SYNCHRONOUS]"
    unfolding fetch_and_store_latest_battery_data_def Let_def ls 1
    by (simp add: battery_record_def telemetry_noon_def env_site_def env_down_def
          sample_strptime_def io0_def write_point_def print_out_def Let_def)
  have 2: "fetch_and_store_battery_history env_site (mk_datetime 2023 8 10 0 0 0)
             (mk_datetime 2023 8 15 0 0 0) [] io0
             = (Inr [battery_record],
                io0\<lparr>stdout := [Query_line (StorageData (mk_datetime 2023 8 10 0 0 0)
                                                       (mk_datetime 2023 8 17 0 0 0))],
                    requests := [StorageData (mk_datetime 2023 8 10 0 0 0)
                                             (mk_datetime 2023 8 17 0 0 0)]\<rparr>)"
    by (simp add: battery_history_step battery_history_done batteries_def query_def env_site_def
          env_down_def io0_def print_out_def mk_datetime_def days_from_civil_def weeks_def)
  have b: "map fst (written (snd (get_complete_battery_history env_site
             (mk_datetime 2023 8 15 0 0 0) io0))) = [ASYNCHRONOUS]"
    unfolding get_complete_battery_history_def 2
    by (simp add: json_to_db_def battery_record_def telemetry_noon_def env_site_def env_down_def
          sample_strptime_def io0_def write_point_def print_out_def Let_def)
  have c: "map fst (written (snd (get_complete_powerdetail_history env_site io0)))
             = [ASYNCHRONOUS]"
    by (simp add: get_complete_powerdetail_history_def powerdetail_history_step
          powerdetail_history_done power_detail_def query_def production_entry_def
          env_site_def env_down_def sample_strptime_def sample_strptime_date_def
          io0_def write_point_def print_out_def Let_def
          mk_datetime_def days_from_civil_def weeks_def)
  show ?thesis using a b c by simp
qed

text \<open>
  C9, amended: every point that the power-detail poll writes goes out in the
  asynchronous mode and every point that the battery poll writes in the synchronous mode;
  every point that the full-history paths write (\<^verbatim>\<open>_json_to_db\<close> and with it
  \<^verbatim>\<open>get_complete_battery_history\<close>, \<^verbatim>\<open>_fetch_and_store_powerdetail_history\<close> and with
  it \<^verbatim>\<open>get_complete_powerdetail_history\<close>) goes out in the asynchronous mode.
\<close>

theorem dispatch_modes:
  "modes (snd (fetch_and_store_latest_power_details e s)) \<subseteq> insert ASYNCHRONOUS (modes s) \<and>
   modes (snd (fetch_and_store_latest_battery_data e s)) \<subseteq> insert SYNCHRONOUS (modes s) \<and>
   modes (snd (json_to_db e data s)) \<subseteq> insert ASYNCHRONOUS (modes s) \<and>
   modes (snd (get_complete_battery_history e to_date s)) \<subseteq> insert ASYNCHRONOUS (modes s) \<and>
   modes (snd (fetch_and_store_powerdetail_history e S E s)) \<subseteq> insert ASYNCHRONOUS (modes s) \<and>
   modes (snd (get_complete_powerdetail_history e s)) \<subseteq> insert ASYNCHRONOUS (modes s)"
proof (intro conjI)
  show "modes (snd (fetch_and_store_latest_power_details e s)) \<subseteq> insert ASYNCHRONOUS (modes s)"
    by (simp add: fetch_and_store_latest_power_details_def Let_def modes_power_loop)
  show "modes (snd (fetch_and_store_latest_battery_data e s)) \<subseteq> insert SYNCHRONOUS (modes s)"
  proof -
    obtain r s1 where l: "battery_loop e (last_stored e Last_any) (now e) [] s = (r, s1)"
      by (cases "battery_loop e (last_stored e Last_any) (now e) [] s")
    have m1: "modes s1 = modes s"
      using modes_battery_loop [of e "last_stored e Last_any" "now e" "[]" s] l by simp
    show ?thesis
    proof (cases r)
      case (Inl x)
      with l m1 show ?thesis
        by (simp add: fetch_and_store_latest_battery_data_def Let_def subset_insertI)
    next
      case (Inr ms)
      with l m1 modes_store_batteries [of e ms s1] show ?thesis
        by (simp add: fetch_and_store_latest_battery_data_def Let_def)
    qed
  qed
  show j: "modes (snd (json_to_db e data s)) \<subseteq> insert ASYNCHRONOUS (modes s)" for data s
  proof (cases "py_iter data")
    case (Inl x)
    then show ?thesis by (simp add: json_to_db_def Let_def subset_insertI)
  next
    case (Inr entries)
    with modes_json_to_db_entries [of e entries "print_out Bucket_line s"] show ?thesis
      by (simp add: json_to_db_def Let_def)
  qed
  show "modes (snd (get_complete_battery_history e to_date s)) \<subseteq> insert ASYNCHRONOUS (modes s)"
  proof -
    obtain r s1 where l:
      "fetch_and_store_battery_history e (mk_datetime 2023 8 10 0 0 0) to_date [] s = (r, s1)"
      by (cases "fetch_and_store_battery_history e (mk_datetime 2023 8 10 0 0 0) to_date [] s")
    have m1: "modes s1 = modes s"
      using modes_battery_history [of e "mk_datetime 2023 8 10 0 0 0" to_date "[]" s] l by simp
    show ?thesis
    proof (cases r)
      case (Inl x)
      with l m1 show ?thesis
        by (simp add: get_complete_battery_history_def subset_insertI)
    next
      case (Inr ms)
      with l m1 j [of "JArr ms" s1] show ?thesis
        by (simp add: get_complete_battery_history_def)
    qed
  qed
  show "modes (snd (fetch_and_store_powerdetail_history e S E s)) \<subseteq> insert ASYNCHRONOUS (modes s)"
    by (rule modes_powerdetail_history)
  show "modes (snd (get_complete_powerdetail_history e s)) \<subseteq> insert ASYNCHRONOUS (modes s)"
    by (simp add: get_complete_powerdetail_history_def Let_def modes_powerdetail_history
          subset_insertI split: option.splits)
qed

theorem dispatch_modes_witness:
  "modes io0 = {} \<and>
   modes (snd (fetch_and_store_latest_power_details env_site io0)) \<subseteq> {ASYNCHRONOUS} \<and>
   modes (snd (fetch_and_store_latest_battery_data env_site io0)) \<subseteq> {SYNCHRONOUS} \<and>
   modes (snd (get_complete_battery_history env_site (mk_datetime 2023 8 15 0 0 0) io0))
     \<subseteq> {ASYNCHRONOUS} \<and>
   modes (snd (get_complete_powerdetail_history env_site io0)) \<subseteq> {ASYNCHRONOUS}"
proof -
  have m: "modes io0 = {}" by (simp add: modes_def io0_def)
  show ?thesis
    using dispatch_modes [where e = env_site and s = io0
                            and to_date = "mk_datetime 2023 8 15 0 0 0"]
    unfolding m by simp
qed

end
